theory Spec2Isabelle
  imports Complex_Main
begin

section \<open>Geometry utilities (src/lib/utils.ts)\<close>

subsection \<open>Binary64 arithmetic\<close>

text \<open>
  A JavaScript number is an IEEE 754 binary64 value: a finite real of the form
  \<open>n * 2 ^ e\<close> with \<open>\<bar>n\<bar> < 2 ^ 53\<close> and \<open>- 1074 \<le> e \<le> 971\<close>, an infinity, or NaN. Every
  arithmetic operation of the source returns its exact result rounded to the nearest such
  value, ties to the even significand; a result that rounds to \<open>2 ^ 1024\<close> or beyond is an
  infinity. The two zeros are identified: \<open>pointToLineDistance\<close> divides only by a value
  that its test \<open>lineLengthSq === 0\<close>, true of both zeros, has found different from zero,
  and no other operation it uses tells the two zeros apart.
\<close>

datatype float64 = Finite real | PosInf | NegInf | NaN

text \<open>Rounding of a real to the nearest integer, a tie going to the even one.\<close>

definition round_even :: "real \<Rightarrow> int" where
  "round_even y =
     (let f = \<lfloor>y\<rfloor>; d = y - of_int f in
      if d < 1 / 2 then f else if d > 1 / 2 then f + 1 else if even f then f else f + 1)"

text \<open>The exponent \<open>k\<close> of the binade \<open>2 ^ k \<le> \<bar>x\<bar> < 2 ^ (k + 1)\<close> of a non-zero real, and
  \<open>- 1022\<close> below the normal range: the binary64 values around \<open>x\<close> are the multiples of
  \<open>2 ^ (k - 52)\<close>.\<close>

definition binary_exponent :: "real \<Rightarrow> int" where
  "binary_exponent x = max (- 1022) \<lfloor>log 2 \<bar>x\<bar>\<rfloor>"

definition round64 :: "real \<Rightarrow> float64" where
  "round64 x =
     (if x = 0 then Finite 0
      else
        let u = 2 powi (binary_exponent x - 52);
            r = of_int (round_even (x / u)) * u
        in if \<bar>r\<bar> \<ge> 2 ^ 1024 then (if x > 0 then PosInf else NegInf) else Finite r)"

fun add64 :: "float64 \<Rightarrow> float64 \<Rightarrow> float64" where
  "add64 NaN b = NaN"
| "add64 a NaN = NaN"
| "add64 PosInf NegInf = NaN"
| "add64 NegInf PosInf = NaN"
| "add64 PosInf b = PosInf"
| "add64 NegInf b = NegInf"
| "add64 a PosInf = PosInf"
| "add64 a NegInf = NegInf"
| "add64 (Finite x) (Finite y) = round64 (x + y)"

fun neg64 :: "float64 \<Rightarrow> float64" where
  "neg64 NaN = NaN"
| "neg64 PosInf = NegInf"
| "neg64 NegInf = PosInf"
| "neg64 (Finite x) = Finite (- x)"

definition sub64 :: "float64 \<Rightarrow> float64 \<Rightarrow> float64" where
  "sub64 a b = add64 a (neg64 b)"

text \<open>The sign of a value, \<open>0\<close> for a zero and for NaN, and the infinity of a given sign;
  a product or quotient that involves an infinity has the product of the signs, and is NaN
  when that is \<open>0\<close>.\<close>

fun sign64 :: "float64 \<Rightarrow> int" where
  "sign64 (Finite x) = (if x > 0 then 1 else if x < 0 then - 1 else 0)"
| "sign64 PosInf = 1"
| "sign64 NegInf = - 1"
| "sign64 NaN = 0"

definition signed_inf :: "int \<Rightarrow> float64" where
  "signed_inf s = (if s > 0 then PosInf else if s < 0 then NegInf else NaN)"

fun mul64 :: "float64 \<Rightarrow> float64 \<Rightarrow> float64" where
  "mul64 NaN b = NaN"
| "mul64 a NaN = NaN"
| "mul64 (Finite x) (Finite y) = round64 (x * y)"
| "mul64 a b = signed_inf (sign64 a * sign64 b)"

fun div64 :: "float64 \<Rightarrow> float64 \<Rightarrow> float64" where
  "div64 NaN b = NaN"
| "div64 a NaN = NaN"
| "div64 (Finite x) (Finite y) =
     (if y = 0 then signed_inf (sign64 (Finite x)) else round64 (x / y))"
| "div64 (Finite x) b = Finite 0"
| "div64 a (Finite y) = signed_inf (sign64 a * (if y < 0 then - 1 else 1))"
| "div64 a b = NaN"

fun sqrt64 :: "float64 \<Rightarrow> float64" where
  "sqrt64 NaN = NaN"
| "sqrt64 PosInf = PosInf"
| "sqrt64 NegInf = NaN"
| "sqrt64 (Finite x) = (if x < 0 then NaN else round64 (sqrt x))"

fun le64 :: "float64 \<Rightarrow> float64 \<Rightarrow> bool" where
  "le64 NaN b = False"
| "le64 a NaN = False"
| "le64 NegInf b = True"
| "le64 a PosInf = True"
| "le64 (Finite x) (Finite y) = (x \<le> y)"
| "le64 a b = False"

text \<open>\<open>Math.max\<close> and \<open>Math.min\<close> of two arguments: NaN when either argument is NaN.\<close>

definition max64 :: "float64 \<Rightarrow> float64 \<Rightarrow> float64" where
  "max64 a b = (if a = NaN \<or> b = NaN then NaN else if le64 a b then b else a)"

definition min64 :: "float64 \<Rightarrow> float64 \<Rightarrow> float64" where
  "min64 a b = (if a = NaN \<or> b = NaN then NaN else if le64 a b then a else b)"

subsection \<open>The distance of a point from a segment\<close>

text \<open>
  The function as it runs: every operation of the source is the binary64 operation, in the
  order and with the parenthesization of the source. The test \<open>lineLengthSq === 0\<close> is
  false of NaN.
\<close>

definition pointToLineDistance ::
    "float64 \<Rightarrow> float64 \<Rightarrow> float64 \<Rightarrow> float64 \<Rightarrow> float64 \<Rightarrow> float64 \<Rightarrow> float64" where
  "pointToLineDistance px py x1 y1 x2 y2 =
     (let lineLengthSq = add64 (mul64 (sub64 x2 x1) (sub64 x2 x1))
                               (mul64 (sub64 y2 y1) (sub64 y2 y1)) in
      if lineLengthSq = Finite 0
      then sqrt64 (add64 (mul64 (sub64 px x1) (sub64 px x1)) (mul64 (sub64 py y1) (sub64 py y1)))
      else
        let t = max64 (Finite 0) (min64 (Finite 1)
                  (div64 (add64 (mul64 (sub64 px x1) (sub64 x2 x1))
                                (mul64 (sub64 py y1) (sub64 y2 y1)))
                         lineLengthSq));
            projectionX = add64 x1 (mul64 t (sub64 x2 x1));
            projectionY = add64 y1 (mul64 t (sub64 y2 y1))
        in sqrt64 (add64 (mul64 (sub64 px projectionX) (sub64 px projectionX))
                         (mul64 (sub64 py projectionY) (sub64 py projectionY))))"





















section \<open>Data model (src/types/canvas.ts)\<close>

text \<open>
  Optional fields (\<open>width?: number\<close>) are options, \<open>None\<close> standing for \<open>undefined\<close>.
  Identifiers are strings. The interaction code produces fresh identifiers from
  \<open>Date.now()\<close>; the rendered time stamp is an input of the handlers below. The numbers
  of the model, of the store and of the component are read as reals: what is proved of them
  below concerns counts, identifiers, copied values and comparisons of the given values.
\<close>

datatype Tool = Select | Hand | Pen | LineTool | RectangleTool | CircleTool | ArrowTool
  | TextTool | ImageTool | Eraser

datatype ShapeType = Rectangle | Circle | Arrow | Text | Line | Image

datatype GuideType = Horizontal | Vertical

record CanvasPath =
  path_id :: string
  path_points :: "real list"
  path_stroke :: string
  path_strokeWidth :: real
  path_fill :: "string option"
  path_opacity :: "real option"

record CanvasShape =
  shape_id :: string
  shape_type :: ShapeType
  shape_x :: real
  shape_y :: real
  shape_width :: "real option"
  shape_height :: "real option"
  shape_radius :: "real option"
  shape_text :: "string option"
  shape_fontSize :: "real option"
  shape_fontFamily :: "string option"
  shape_backgroundColor :: "string option"
  shape_isbold :: "bool option"
  shape_isitalic :: "bool option"
  shape_isunderline :: "bool option"
  shape_isstrikethrough :: "bool option"
  shape_points :: "real list option"
  shape_stroke :: string
  shape_strokeWidth :: real
  shape_fill :: "string option"
  shape_opacity :: "real option"
  shape_rotation :: real
  shape_src :: "string option"
  shape_filter :: "string option"

record GuideLine =
  guide_id :: string
  guide_type :: GuideType
  guide_position :: real
  guide_isTemp :: "bool option"

text \<open>
  \<open>Partial<CanvasShape>\<close>: every key is either absent (\<open>Keep\<close>) or present with a value
  (\<open>Set v\<close>); for an optional field the value may be \<open>undefined\<close> (\<open>Set None\<close>). The object
  spread \<open>{ ...shape, ...updates }\<close> takes every present key from the updates.
\<close>

datatype 'a upd = Keep | Set 'a

fun apply_upd :: "'a upd \<Rightarrow> 'a \<Rightarrow> 'a" where
  "apply_upd Keep old = old"
| "apply_upd (Set v) old = v"

record ShapeUpdates =
  upd_id :: "string upd"
  upd_type :: "ShapeType upd"
  upd_x :: "real upd"
  upd_y :: "real upd"
  upd_width :: "real option upd"
  upd_height :: "real option upd"
  upd_radius :: "real option upd"
  upd_text :: "string option upd"
  upd_fontSize :: "real option upd"
  upd_fontFamily :: "string option upd"
  upd_backgroundColor :: "string option upd"
  upd_isbold :: "bool option upd"
  upd_isitalic :: "bool option upd"
  upd_isunderline :: "bool option upd"
  upd_isstrikethrough :: "bool option upd"
  upd_points :: "real list option upd"
  upd_stroke :: "string upd"
  upd_strokeWidth :: "real upd"
  upd_fill :: "string option upd"
  upd_opacity :: "real option upd"
  upd_rotation :: "real upd"
  upd_src :: "string option upd"
  upd_filter :: "string option upd"

definition no_updates :: ShapeUpdates where
  "no_updates = \<lparr> upd_id = Keep, upd_type = Keep, upd_x = Keep, upd_y = Keep, upd_width = Keep,
     upd_height = Keep, upd_radius = Keep, upd_text = Keep, upd_fontSize = Keep,
     upd_fontFamily = Keep, upd_backgroundColor = Keep, upd_isbold = Keep, upd_isitalic = Keep,
     upd_isunderline = Keep, upd_isstrikethrough = Keep, upd_points = Keep, upd_stroke = Keep,
     upd_strokeWidth = Keep, upd_fill = Keep, upd_opacity = Keep, upd_rotation = Keep,
     upd_src = Keep, upd_filter = Keep \<rparr>"

definition merge_shape :: "CanvasShape \<Rightarrow> ShapeUpdates \<Rightarrow> CanvasShape" where
  "merge_shape shape updates =
     \<lparr> shape_id = apply_upd (upd_id updates) (shape_id shape),
       shape_type = apply_upd (upd_type updates) (shape_type shape),
       shape_x = apply_upd (upd_x updates) (shape_x shape),
       shape_y = apply_upd (upd_y updates) (shape_y shape),
       shape_width = apply_upd (upd_width updates) (shape_width shape),
       shape_height = apply_upd (upd_height updates) (shape_height shape),
       shape_radius = apply_upd (upd_radius updates) (shape_radius shape),
       shape_text = apply_upd (upd_text updates) (shape_text shape),
       shape_fontSize = apply_upd (upd_fontSize updates) (shape_fontSize shape),
       shape_fontFamily = apply_upd (upd_fontFamily updates) (shape_fontFamily shape),
       shape_backgroundColor = apply_upd (upd_backgroundColor updates) (shape_backgroundColor shape),
       shape_isbold = apply_upd (upd_isbold updates) (shape_isbold shape),
       shape_isitalic = apply_upd (upd_isitalic updates) (shape_isitalic shape),
       shape_isunderline = apply_upd (upd_isunderline updates) (shape_isunderline shape),
       shape_isstrikethrough = apply_upd (upd_isstrikethrough updates) (shape_isstrikethrough shape),
       shape_points = apply_upd (upd_points updates) (shape_points shape),
       shape_stroke = apply_upd (upd_stroke updates) (shape_stroke shape),
       shape_strokeWidth = apply_upd (upd_strokeWidth updates) (shape_strokeWidth shape),
       shape_fill = apply_upd (upd_fill updates) (shape_fill shape),
       shape_opacity = apply_upd (upd_opacity updates) (shape_opacity shape),
       shape_rotation = apply_upd (upd_rotation updates) (shape_rotation shape),
       shape_src = apply_upd (upd_src updates) (shape_src shape),
       shape_filter = apply_upd (upd_filter updates) (shape_filter shape) \<rparr>"

text \<open>A whole shape object passed where updates are expected: every key is present.\<close>

definition shape_as_updates :: "CanvasShape \<Rightarrow> ShapeUpdates" where
  "shape_as_updates s =
     \<lparr> upd_id = Set (shape_id s), upd_type = Set (shape_type s), upd_x = Set (shape_x s),
       upd_y = Set (shape_y s), upd_width = Set (shape_width s), upd_height = Set (shape_height s),
       upd_radius = Set (shape_radius s), upd_text = Set (shape_text s),
       upd_fontSize = Set (shape_fontSize s), upd_fontFamily = Set (shape_fontFamily s),
       upd_backgroundColor = Set (shape_backgroundColor s), upd_isbold = Set (shape_isbold s),
       upd_isitalic = Set (shape_isitalic s), upd_isunderline = Set (shape_isunderline s),
       upd_isstrikethrough = Set (shape_isstrikethrough s), upd_points = Set (shape_points s),
       upd_stroke = Set (shape_stroke s), upd_strokeWidth = Set (shape_strokeWidth s),
       upd_fill = Set (shape_fill s), upd_opacity = Set (shape_opacity s),
       upd_rotation = Set (shape_rotation s), upd_src = Set (shape_src s),
       upd_filter = Set (shape_filter s) \<rparr>"

section \<open>The canvas store (src/unnamed/part_003)\<close>

text \<open>
  The zustand store is a record; every store function is a function from the state before
  the call to the state after it. Writing the browser's local storage
  (\<open>saveToLocalStorage\<close>) changes no field of the store and swallows its own errors, so it
  leaves no trace in the model. The collaboration service is an external party: a call of one
  of its methods is recorded in \<open>collabSent\<close>, and the state it reports back arrives through
  \<open>setPaths\<close> and \<open>setShapes\<close>. The record has the fields that the functions below
  read or write; the store's own \<open>isDrawing\<close> and \<open>currentPath\<close> (the component keeps its
  own), the loading and error flags of the collaboration and the canvas identifier are left
  out.
\<close>

record HistoryEntry =
  entry_paths :: "CanvasPath list"
  entry_shapes :: "CanvasShape list"

datatype CollabIntent =
    CollabAddPath CanvasPath
  | CollabAddShape CanvasShape
  | CollabUpdateShape string ShapeUpdates
  | CollabDeleteSelected "string list"
  | CollabClearCanvas

record Store =
  tool :: Tool
  strokeColor :: string
  strokeWidth :: real
  fillColor :: string
  opacity :: real
  rotation :: real
  showGrid :: bool
  snapEnabled :: bool
  paths :: "CanvasPath list"
  shapes :: "CanvasShape list"
  selectedIds :: "string list"
  stagePos :: "real \<times> real"
  stageScale :: real
  history :: "HistoryEntry list"
  historyIndex :: int
  isCollaborating :: bool
  collabService :: bool
  collabSent :: "CollabIntent list"

datatype error = TypeError

text \<open>The initial state, from the data found in local storage (both lists empty when there
  is none).\<close>

definition initialStore :: "CanvasPath list \<Rightarrow> CanvasShape list \<Rightarrow> Store" where
  "initialStore initialPaths initialShapes =
     \<lparr> tool = Pen, strokeColor = ''#000000'', strokeWidth = 2, fillColor = ''transparent'',
       opacity = 1, rotation = 0, showGrid = True, snapEnabled = True,
       paths = initialPaths, shapes = initialShapes, selectedIds = [],
       stagePos = (0, 0), stageScale = 1,
       history = (if length initialPaths > 0 \<or> length initialShapes > 0
                  then [\<lparr> entry_paths = initialPaths, entry_shapes = initialShapes \<rparr>] else []),
       historyIndex = (if length initialPaths > 0 \<or> length initialShapes > 0 then 0 else - 1),
       isCollaborating = False, collabService = False, collabSent = [] \<rparr>"

text \<open>\<open>xs.slice(0, e)\<close>: a negative end counts from the end of the array.\<close>

definition slice0 :: "'a list \<Rightarrow> int \<Rightarrow> 'a list" where
  "slice0 xs e = (if e < 0 then take (nat (int (length xs) + e)) xs else take (nat e) xs)"

text \<open>\<open>xs[i]\<close>: \<open>undefined\<close> outside the array.\<close>

definition js_index :: "'a list \<Rightarrow> int \<Rightarrow> 'a option" where
  "js_index xs i = (if 0 \<le> i \<and> i < int (length xs) then Some (xs ! nat i) else None)"

definition saveToHistory :: "Store \<Rightarrow> Store" where
  "saveToHistory s =
     (let newHistory = slice0 (history s) (historyIndex s + 1)
                       @ [\<lparr> entry_paths = paths s, entry_shapes = shapes s \<rparr>]
      in if length newHistory > 50
         then s\<lparr> history := tl newHistory \<rparr>
         else s\<lparr> historyIndex := historyIndex s + 1, history := newHistory \<rparr>)"

text \<open>Reading \<open>.paths\<close> of an entry that is not there raises a \<open>TypeError\<close>.\<close>

definition undo :: "Store \<Rightarrow> error + Store" where
  "undo s =
     (if historyIndex s > 0 then
        (case js_index (history s) (historyIndex s - 1) of
           None \<Rightarrow> Inl TypeError
         | Some prevState \<Rightarrow>
             Inr (s\<lparr> paths := entry_paths prevState, shapes := entry_shapes prevState,
                      historyIndex := historyIndex s - 1, selectedIds := [] \<rparr>))
      else Inr s)"

definition redo :: "Store \<Rightarrow> error + Store" where
  "redo s =
     (if historyIndex s < int (length (history s)) - 1 then
        (case js_index (history s) (historyIndex s + 1) of
           None \<Rightarrow> Inl TypeError
         | Some nextState \<Rightarrow>
             Inr (s\<lparr> paths := entry_paths nextState, shapes := entry_shapes nextState,
                      historyIndex := historyIndex s + 1, selectedIds := [] \<rparr>))
      else Inr s)"

definition canUndo :: "Store \<Rightarrow> bool" where
  "canUndo s = (historyIndex s > 0)"

definition canRedo :: "Store \<Rightarrow> bool" where
  "canRedo s = (historyIndex s < int (length (history s)) - 1)"

definition addPath :: "CanvasPath \<Rightarrow> Store \<Rightarrow> Store" where
  "addPath path s = saveToHistory (s\<lparr> paths := paths s @ [path] \<rparr>)"

definition addShape :: "CanvasShape \<Rightarrow> Store \<Rightarrow> Store" where
  "addShape shape s = saveToHistory (s\<lparr> shapes := shapes s @ [shape] \<rparr>)"

definition updateShape :: "string \<Rightarrow> ShapeUpdates \<Rightarrow> Store \<Rightarrow> Store" where
  "updateShape ident updates s =
     saveToHistory (s\<lparr> shapes :=
       map (\<lambda>shape. if shape_id shape = ident then merge_shape shape updates else shape)
           (shapes s) \<rparr>)"

definition deleteShape :: "string \<Rightarrow> Store \<Rightarrow> Store" where
  "deleteShape ident s =
     saveToHistory (s\<lparr> shapes := filter (\<lambda>shape. shape_id shape \<noteq> ident) (shapes s) \<rparr>)"

definition deletePath :: "string \<Rightarrow> Store \<Rightarrow> Store" where
  "deletePath ident s =
     saveToHistory (s\<lparr> paths := filter (\<lambda>path. path_id path \<noteq> ident) (paths s) \<rparr>)"

definition clearPaths :: "Store \<Rightarrow> Store" where
  "clearPaths s = saveToHistory (s\<lparr> paths := [] \<rparr>)"

definition clearShapes :: "Store \<Rightarrow> Store" where
  "clearShapes s = saveToHistory (s\<lparr> shapes := [] \<rparr>)"

definition clearCanvas :: "Store \<Rightarrow> Store" where
  "clearCanvas s = saveToHistory (s\<lparr> paths := [], shapes := [], selectedIds := [] \<rparr>)"

definition setSelectedIds :: "string list \<Rightarrow> Store \<Rightarrow> Store" where
  "setSelectedIds ids s = s\<lparr> selectedIds := ids \<rparr>"

definition addToSelection :: "string \<Rightarrow> Store \<Rightarrow> Store" where
  "addToSelection ident s =
     s\<lparr> selectedIds := (if ident \<in> set (selectedIds s) then selectedIds s
                         else selectedIds s @ [ident]) \<rparr>"

definition removeFromSelection :: "string \<Rightarrow> Store \<Rightarrow> Store" where
  "removeFromSelection ident s =
     s\<lparr> selectedIds := filter (\<lambda>selectedId. selectedId \<noteq> ident) (selectedIds s) \<rparr>"

definition clearSelection :: "Store \<Rightarrow> Store" where
  "clearSelection s = s\<lparr> selectedIds := [] \<rparr>"

definition deleteSelected :: "Store \<Rightarrow> Store" where
  "deleteSelected s =
     saveToHistory (s\<lparr>
       shapes := filter (\<lambda>shape. shape_id shape \<notin> set (selectedIds s)) (shapes s),
       paths := filter (\<lambda>path. path_id path \<notin> set (selectedIds s)) (paths s),
       selectedIds := [] \<rparr>)"

definition setTool :: "Tool \<Rightarrow> Store \<Rightarrow> Store" where
  "setTool t s = s\<lparr> tool := t \<rparr>"

definition setStagePos :: "real \<times> real \<Rightarrow> Store \<Rightarrow> Store" where
  "setStagePos p s = s\<lparr> stagePos := p \<rparr>"

definition setStageScale :: "real \<Rightarrow> Store \<Rightarrow> Store" where
  "setStageScale sc s = s\<lparr> stageScale := sc \<rparr>"

definition setSnapEnabled :: "bool \<Rightarrow> Store \<Rightarrow> Store" where
  "setSnapEnabled enable s = s\<lparr> snapEnabled := enable \<rparr>"

definition setPaths :: "CanvasPath list \<Rightarrow> Store \<Rightarrow> Store" where
  "setPaths ps s = s\<lparr> paths := ps \<rparr>"

definition setShapes :: "CanvasShape list \<Rightarrow> Store \<Rightarrow> Store" where
  "setShapes shs s = s\<lparr> shapes := shs \<rparr>"

text \<open>\<open>loadFromLocalStorage\<close>, on the branch that finds well-formed stored data.\<close>

definition loadFromLocalStorage :: "CanvasPath list \<Rightarrow> CanvasShape list \<Rightarrow> Store \<Rightarrow> Store" where
  "loadFromLocalStorage ps shs s = saveToHistory (s\<lparr> paths := ps, shapes := shs, selectedIds := [] \<rparr>)"

definition updateImage :: "string \<Rightarrow> ShapeUpdates \<Rightarrow> Store \<Rightarrow> Store" where
  "updateImage ident updates s =
     (if \<exists>sh \<in> set (shapes s). shape_id sh = ident then updateShape ident updates s else s)"

definition collaborativeAddPath :: "CanvasPath \<Rightarrow> Store \<Rightarrow> Store" where
  "collaborativeAddPath path s =
     (if collabService s \<and> isCollaborating s
      then s\<lparr> collabSent := collabSent s @ [CollabAddPath path] \<rparr>
      else addPath path s)"

definition collaborativeAddShape :: "CanvasShape \<Rightarrow> Store \<Rightarrow> Store" where
  "collaborativeAddShape shape s =
     (if collabService s \<and> isCollaborating s
      then s\<lparr> collabSent := collabSent s @ [CollabAddShape shape] \<rparr>
      else addShape shape s)"

definition collaborativeUpdateShape :: "string \<Rightarrow> ShapeUpdates \<Rightarrow> Store \<Rightarrow> Store" where
  "collaborativeUpdateShape ident updates s =
     (if collabService s \<and> isCollaborating s
      then updateShape ident updates (s\<lparr> collabSent := collabSent s @ [CollabUpdateShape ident updates] \<rparr>)
      else updateShape ident updates s)"

definition collaborativeDeleteSelected :: "Store \<Rightarrow> Store" where
  "collaborativeDeleteSelected s =
     (if collabService s \<and> isCollaborating s
      then deleteSelected (s\<lparr> collabSent := collabSent s @ [CollabDeleteSelected (selectedIds s)] \<rparr>)
      else deleteSelected s)"

definition collaborativeClearCanvas :: "Store \<Rightarrow> Store" where
  "collaborativeClearCanvas s =
     (if collabService s \<and> isCollaborating s
      then s\<lparr> collabSent := collabSent s @ [CollabClearCanvas] \<rparr>
      else clearCanvas s)"

text \<open>
  Modelled from the spec: \<open>eraseSelected\<close>, which the canvas component takes from the store
  and calls on pointer-up of an eraser session, is not among the store functions at hand.
  The specification says of it: "On pointer-up, all touched ids are deleted in one batch
  operation (single history commit)", and of the selection: "all ids must reference
  entities currently present in the model; stale ids are pruned on delete". It is the batch
  deletion of \<open>deleteSelected\<close> with the touched ids in place of the selection: the touched
  ids leave the shapes, the paths and the selection, and one history entry is committed.
\<close>

definition eraseSelected :: "string list \<Rightarrow> Store \<Rightarrow> Store" where
  "eraseSelected ids s =
     saveToHistory (s\<lparr>
       shapes := filter (\<lambda>shape. shape_id shape \<notin> set ids) (shapes s),
       paths := filter (\<lambda>path. path_id path \<notin> set ids) (paths s),
       selectedIds := filter (\<lambda>i. i \<notin> set ids) (selectedIds s) \<rparr>)"

text \<open>The calls that other parts of the program make on the store, as one type of actions,
  and the states the store can be in.\<close>

datatype StoreAction =
    SetTool Tool
  | AddPath CanvasPath
  | AddShape CanvasShape
  | UpdateShape string ShapeUpdates
  | DeleteShape string
  | DeletePath string
  | ClearPaths
  | ClearShapes
  | ClearCanvas
  | SetSelectedIds "string list"
  | AddToSelection string
  | RemoveFromSelection string
  | ClearSelection
  | DeleteSelected
  | SetStagePos "real \<times> real"
  | SetStageScale real
  | SetSnapEnabled bool
  | Undo
  | Redo
  | LoadFromLocalStorage "CanvasPath list" "CanvasShape list"
  | UpdateImage string ShapeUpdates
  | SetPaths "CanvasPath list"
  | SetShapes "CanvasShape list"
  | CollaborativeAddPath CanvasPath
  | CollaborativeAddShape CanvasShape
  | CollaborativeUpdateShape string ShapeUpdates
  | CollaborativeDeleteSelected
  | CollaborativeClearCanvas
  | EraseSelected "string list"

fun store_step :: "StoreAction \<Rightarrow> Store \<Rightarrow> error + Store" where
  "store_step (SetTool t) s = Inr (setTool t s)"
| "store_step (AddPath p) s = Inr (addPath p s)"
| "store_step (AddShape sh) s = Inr (addShape sh s)"
| "store_step (UpdateShape i u) s = Inr (updateShape i u s)"
| "store_step (DeleteShape i) s = Inr (deleteShape i s)"
| "store_step (DeletePath i) s = Inr (deletePath i s)"
| "store_step ClearPaths s = Inr (clearPaths s)"
| "store_step ClearShapes s = Inr (clearShapes s)"
| "store_step ClearCanvas s = Inr (clearCanvas s)"
| "store_step (SetSelectedIds ids) s = Inr (setSelectedIds ids s)"
| "store_step (AddToSelection i) s = Inr (addToSelection i s)"
| "store_step (RemoveFromSelection i) s = Inr (removeFromSelection i s)"
| "store_step ClearSelection s = Inr (clearSelection s)"
| "store_step DeleteSelected s = Inr (deleteSelected s)"
| "store_step (SetStagePos p) s = Inr (setStagePos p s)"
| "store_step (SetStageScale sc) s = Inr (setStageScale sc s)"
| "store_step (SetSnapEnabled b) s = Inr (setSnapEnabled b s)"
| "store_step Undo s = undo s"
| "store_step Redo s = redo s"
| "store_step (LoadFromLocalStorage ps shs) s = Inr (loadFromLocalStorage ps shs s)"
| "store_step (UpdateImage i u) s = Inr (updateImage i u s)"
| "store_step (SetPaths ps) s = Inr (setPaths ps s)"
| "store_step (SetShapes shs) s = Inr (setShapes shs s)"
| "store_step (CollaborativeAddPath p) s = Inr (collaborativeAddPath p s)"
| "store_step (CollaborativeAddShape sh) s = Inr (collaborativeAddShape sh s)"
| "store_step (CollaborativeUpdateShape i u) s = Inr (collaborativeUpdateShape i u s)"
| "store_step CollaborativeDeleteSelected s = Inr (collaborativeDeleteSelected s)"
| "store_step CollaborativeClearCanvas s = Inr (collaborativeClearCanvas s)"
| "store_step (EraseSelected ids) s = Inr (eraseSelected ids s)"

inductive store_reachable :: "Store \<Rightarrow> bool" where
  initial: "store_reachable (initialStore initialPaths initialShapes)"
| step: "store_reachable s \<Longrightarrow> store_step a s = Inr s' \<Longrightarrow> store_reachable s'"

text \<open>Running a store function that may raise a number of times in a row, and running a list
  of commits: each element is the content of the model at the time of that commit.\<close>

fun repeat_call :: "nat \<Rightarrow> (Store \<Rightarrow> error + Store) \<Rightarrow> Store \<Rightarrow> error + Store" where
  "repeat_call 0 f s = Inr s"
| "repeat_call (Suc n) f s = (case f s of Inl e \<Rightarrow> Inl e | Inr s' \<Rightarrow> repeat_call n f s')"

fun commits :: "HistoryEntry list \<Rightarrow> Store \<Rightarrow> Store" where
  "commits [] s = s"
| "commits (e # es) s =
     commits es (saveToHistory (s\<lparr> paths := entry_paths e, shapes := entry_shapes e \<rparr>))"

text \<open>Vocabulary for the history properties: the entry a commit appends, the last \<open>n\<close>
  elements of a list, the cursor lying inside the log, and the cursor lying on the newest
  entry of a log within capacity.\<close>

definition snapshot :: "Store \<Rightarrow> HistoryEntry" where
  "snapshot s = \<lparr> entry_paths = paths s, entry_shapes = shapes s \<rparr>"

definition last_n :: "nat \<Rightarrow> 'a list \<Rightarrow> 'a list" where
  "last_n n xs = drop (length xs - n) xs"

definition hist_inv :: "Store \<Rightarrow> bool" where
  "hist_inv s = (- 1 \<le> historyIndex s \<and> historyIndex s < int (length (history s)))"

definition at_top :: "Store \<Rightarrow> bool" where
  "at_top s = (historyIndex s = int (length (history s)) - 1 \<and> length (history s) \<le> 50)"

text \<open>The model agrees with the history entry under the cursor (an empty log has none).\<close>

definition cursor_synced :: "Store \<Rightarrow> bool" where
  "cursor_synced s =
     ((history s = [] \<and> historyIndex s = - 1)
      \<or> js_index (history s) (historyIndex s) = Some (snapshot s))"

text \<open>The store's own operations, as opposed to the two setters through which the
  collaboration service replaces the model, and the states reached through them alone.\<close>

fun local_action :: "StoreAction \<Rightarrow> bool" where
  "local_action (SetPaths ps) = False"
| "local_action (SetShapes shs) = False"
| "local_action a = True"

inductive store_reachable_local :: "Store \<Rightarrow> bool" where
  initial_local: "store_reachable_local (initialStore initialPaths initialShapes)"
| step_local: "store_reachable_local s \<Longrightarrow> local_action a \<Longrightarrow> store_step a s = Inr s'
     \<Longrightarrow> store_reachable_local s'"

definition redo_then_undo :: "Store \<Rightarrow> error + Store" where
  "redo_then_undo s = (case redo s of Inl e \<Rightarrow> Inl e | Inr s1 \<Rightarrow> undo s1)"

fun run_actions :: "StoreAction list \<Rightarrow> Store \<Rightarrow> error + Store" where
  "run_actions [] s = Inr s"
| "run_actions (a # as) s =
     (case store_step a s of Inl e \<Rightarrow> Inl e | Inr s' \<Rightarrow> run_actions as s')"

text \<open>Concrete data for the examples: two paths, sixty distinct snapshots, and the store
  after two local additions, one undo and a replacement of the paths by the collaboration
  service.\<close>

definition path_a :: CanvasPath where
  "path_a = \<lparr> path_id = ''a'', path_points = [0, 0, 1, 1], path_stroke = ''#000000'',
      path_strokeWidth = 2, path_fill = None, path_opacity = Some 1 \<rparr>"

definition path_b :: CanvasPath where
  "path_b = \<lparr> path_id = ''b'', path_points = [2, 2, 3, 3], path_stroke = ''#000000'',
      path_strokeWidth = 2, path_fill = None, path_opacity = Some 1 \<rparr>"

definition numbered_entry :: "nat \<Rightarrow> HistoryEntry" where
  "numbered_entry k = \<lparr> entry_paths = replicate k path_a, entry_shapes = [] \<rparr>"

definition sixty_entries :: "HistoryEntry list" where
  "sixty_entries = map numbered_entry [0..<60]"

definition remote_replaced_state :: Store where
  "remote_replaced_state =
     (initialStore [] [])\<lparr> history := [\<lparr> entry_paths = [path_a], entry_shapes = [] \<rparr>,
                                        \<lparr> entry_paths = [path_a, path_b], entry_shapes = [] \<rparr>],
                            historyIndex := 0 \<rparr>"

section \<open>The stroke outliner (src/unnamed/part_002, \<open>getStroke\<close>)\<close>

text \<open>
  The options object is read through a destructuring with defaults: a key that is absent or
  \<open>undefined\<close> takes the default. A sample point is the pair of its first two entries.
  \<open>Math.atan2 (y, x)\<close> is the angle of the point \<open>(x, y)\<close> in \<open>(-\<pi>, \<pi>]\<close>. The option
  \<open>size\<close> is called \<open>strokeSize\<close> here, \<open>size\<close> being a constant of the logic.
\<close>

record StrokeOptions =
  opt_size :: "real option"
  opt_thinning :: "real option"
  opt_simulatePressure :: "bool option"

definition atan2 :: "real \<Rightarrow> real \<Rightarrow> real" where
  "atan2 y x =
     (if x > 0 then arctan (y / x)
      else if x < 0 \<and> y \<ge> 0 then arctan (y / x) + pi
      else if x < 0 \<and> y < 0 then arctan (y / x) - pi
      else if y > 0 then pi / 2
      else if y < 0 then - pi / 2
      else 0)"

definition inputPoints :: "(real \<times> real) list \<Rightarrow> bool \<Rightarrow> (real \<times> real \<times> real) list" where
  "inputPoints points simulatePressure =
     map (\<lambda>i. let point = points ! i;
                   pressure = (if simulatePressure
                               then min 1 (1 - \<bar>real i - real (length points) / 2\<bar>
                                               / (real (length points) / 2))
                               else 0.5)
               in (fst point, snd point, pressure))
         [0..<length points]"

text \<open>What the first loop pushes at index \<open>i\<close>, and what the second loop pushes there.\<close>

definition forward_at :: "real \<Rightarrow> real \<Rightarrow> (real \<times> real \<times> real) list \<Rightarrow> nat \<Rightarrow> (real \<times> real) list" where
  "forward_at strokeSize thinning ip i =
     (case ip ! i of (x, y, pressure) \<Rightarrow>
        let currentSize = strokeSize * (1 - thinning * (1 - pressure)) in
        if i = 0 then [(x - currentSize / 2, y - currentSize / 2),
                       (x + currentSize / 2, y - currentSize / 2)]
        else (case ip ! (i - 1) of (prevX, prevY, prevPressure) \<Rightarrow>
                let angle = atan2 (y - prevY) (x - prevX);
                    perpAngle = angle + pi / 2
                in [(x + (cos perpAngle * currentSize) / 2, y + (sin perpAngle * currentSize) / 2)]))"

definition backward_at :: "real \<Rightarrow> real \<Rightarrow> (real \<times> real \<times> real) list \<Rightarrow> nat \<Rightarrow> real \<times> real" where
  "backward_at strokeSize thinning ip i =
     (case ip ! i of (x, y, pressure) \<Rightarrow>
        let currentSize = strokeSize * (1 - thinning * (1 - pressure));
            angle = (if i > 0
                     then (case ip ! (i - 1) of (prevX, prevY, prevPressure) \<Rightarrow>
                             atan2 (y - prevY) (x - prevX))
                     else 0);
            perpAngle = angle - pi / 2
        in (x + (cos perpAngle * currentSize) / 2, y + (sin perpAngle * currentSize) / 2))"

definition getStroke :: "(real \<times> real) list \<Rightarrow> StrokeOptions \<Rightarrow> (real \<times> real) list" where
  "getStroke points options =
     (let strokeSize = (case opt_size options of None \<Rightarrow> 8 | Some v \<Rightarrow> v);
          thinning = (case opt_thinning options of None \<Rightarrow> 0.5 | Some v \<Rightarrow> v);
          simulatePressure = (case opt_simulatePressure options of None \<Rightarrow> True | Some v \<Rightarrow> v);
          ip = inputPoints points simulatePressure
      in concat (map (forward_at strokeSize thinning ip) [0..<length ip])
         @ map (backward_at strokeSize thinning ip) (rev [0..<length ip]))"

definition default_options :: StrokeOptions where
  "default_options = \<lparr> opt_size = None, opt_thinning = None, opt_simulatePressure = None \<rparr>"

section \<open>The canvas component (src/unnamed/part_002)\<close>

text \<open>
  The state of the component is the store together with the values held by its \<open>useState\<close>
  hooks. A handler reads the values of the last render and queues its writes; it is a function
  from the state before the event to the state after it. What a handler reads from outside
  is an argument: the pointer event, and an environment with the top left corner of the
  canvas element (\<open>None\<close> when the element is not mounted) and the rendered clock reading
  that fresh identifiers are made of. Divisions by the viewport scale are divisions of real
  numbers; the program keeps the scale between 0.1 and 5.
\<close>

record EditingText =
  et_id :: string
  et_x :: real
  et_y :: real
  et_text :: string
  et_fontSize :: real

record Canvas =
  store :: Store
  isDrawing :: bool
  isPanning :: bool
  isDragging :: bool
  isResizing :: bool
  resizeHandle :: "string option"
  startPos :: "(real \<times> real) option"
  lastPanPoint :: "(real \<times> real) option"
  dragOffset :: "real \<times> real"
  currentPath :: "(real \<times> real) list"
  currentShape :: "CanvasShape option"
  editingText :: "EditingText option"
  tempGuides :: "GuideLine list"
  snapDistance :: real
  erasedElements :: "string list"
  isMouseDown :: bool

record MouseEvent =
  clientX :: real
  clientY :: real
  shiftKey :: bool

record Env =
  canvasRect :: "(real \<times> real) option"
  now :: string

definition initialCanvas :: "Store \<Rightarrow> Canvas" where
  "initialCanvas s =
     \<lparr> store = s, isDrawing = False, isPanning = False, isDragging = False, isResizing = False,
       resizeHandle = None, startPos = None, lastPanPoint = None, dragOffset = (0, 0),
       currentPath = [], currentShape = None, editingText = None, tempGuides = [],
       snapDistance = 1, erasedElements = [], isMouseDown = False \<rparr>"

text \<open>\<open>v || 0\<close> for an optional number.\<close>

definition or0 :: "real option \<Rightarrow> real" where
  "or0 v = (case v of None \<Rightarrow> 0 | Some w \<Rightarrow> w)"

definition getCanvasCoordinates :: "Canvas \<Rightarrow> Env \<Rightarrow> real \<Rightarrow> real \<Rightarrow> real \<times> real" where
  "getCanvasCoordinates c env cx cy =
     (case canvasRect env of
        None \<Rightarrow> (0, 0)
      | Some (rectLeft, rectTop) \<Rightarrow>
          ((cx - rectLeft - fst (stagePos (store c))) / stageScale (store c),
           (cy - rectTop - snd (stagePos (store c))) / stageScale (store c)))"

definition findShapeAtPosition :: "Canvas \<Rightarrow> real \<Rightarrow> real \<Rightarrow> CanvasShape option" where
  "findShapeAtPosition c x y =
     find (\<lambda>shape. x \<ge> shape_x shape \<and> x \<le> shape_x shape + or0 (shape_width shape)
                  \<and> y \<ge> shape_y shape \<and> y \<le> shape_y shape + or0 (shape_height shape))
          (rev (shapes (store c)))"

text \<open>The hit test of a path calls \<open>pointToLineDistance\<close> on each of its segments and
  compares the result with half the stroke width, a comparison that is false of NaN; a number
  of the component handed to the distance function stands for the binary64 value it is.\<close>

definition findPathAtPosition :: "Canvas \<Rightarrow> real \<Rightarrow> real \<Rightarrow> CanvasPath option" where
  "findPathAtPosition c x y =
     find (\<lambda>path. let points = path_points path in
             list_ex (\<lambda>j. le64 (pointToLineDistance (Finite x) (Finite y)
                                   (Finite (points ! j)) (Finite (points ! (j + 1)))
                                   (Finite (points ! (j + 2))) (Finite (points ! (j + 3))))
                                (Finite (path_strokeWidth path / 2 / stageScale (store c))))
                     (filter even [0..<length points - 3]))
          (rev (paths (store c)))"

definition getResizeHandle :: "Canvas \<Rightarrow> real \<Rightarrow> real \<Rightarrow> CanvasShape \<Rightarrow> string option" where
  "getResizeHandle c x y shape =
     (let handleSize = 8 / stageScale (store c);
          w = or0 (shape_width shape); h = or0 (shape_height shape);
          handles =
            [(''nw'', shape_x shape - handleSize / 2, shape_y shape - handleSize / 2),
             (''ne'', shape_x shape + w - handleSize / 2, shape_y shape - handleSize / 2),
             (''sw'', shape_x shape - handleSize / 2, shape_y shape + h - handleSize / 2),
             (''se'', shape_x shape + w - handleSize / 2, shape_y shape + h - handleSize / 2),
             (''n'', shape_x shape + w / 2 - handleSize / 2, shape_y shape - handleSize / 2),
             (''s'', shape_x shape + w / 2 - handleSize / 2, shape_y shape + h - handleSize / 2),
             (''w'', shape_x shape - handleSize / 2, shape_y shape + h / 2 - handleSize / 2),
             (''e'', shape_x shape + w - handleSize / 2, shape_y shape + h / 2 - handleSize / 2)]
      in map_option fst
           (find (\<lambda>(name, hx, hy). x \<ge> hx \<and> x \<le> hx + handleSize \<and> y \<ge> hy \<and> y \<le> hy + handleSize)
                 handles))"

subsection \<open>Snapping\<close>

definition getAllSnapPoints :: "Canvas \<Rightarrow> CanvasShape option \<Rightarrow> (real \<times> real) list" where
  "getAllSnapPoints c current =
     concat (map (\<lambda>shape.
        if (case current of None \<Rightarrow> False | Some cur \<Rightarrow> shape_id shape = shape_id cur)
        then []
        else (let x = shape_x shape; y = shape_y shape;
                  width = or0 (shape_width shape); height = or0 (shape_height shape)
              in [(x, y), (x + width, y), (x, y + height), (x + width, y + height),
                  (x + width / 2, y + height / 2),
                  (x + width / 2, y), (x + width / 2, y + height),
                  (x, y + height / 2), (x + width, y + height / 2)]))
        (shapes (store c)))"

text \<open>
  One step of the reduction that looks for the nearest coordinate, and the reduction itself.
  The accumulator starts at \<open>Infinity\<close>, here \<open>None\<close>: every finite distance is below the
  distance to \<open>Infinity\<close>.
\<close>

definition closer :: "real \<Rightarrow> real \<Rightarrow> real option \<Rightarrow> real \<Rightarrow> real option" where
  "closer tolerance v closest pos =
     (let distance = \<bar>v - pos\<bar> in
      if (case closest of None \<Rightarrow> True | Some cl \<Rightarrow> distance < \<bar>v - cl\<bar>) \<and> distance \<le> tolerance
      then Some pos else closest)"

definition closest_coordinate :: "real \<Rightarrow> real \<Rightarrow> real list \<Rightarrow> real option" where
  "closest_coordinate tolerance v coords = foldl (closer tolerance v) None coords"

definition applySnapping :: "Canvas \<Rightarrow> Env \<Rightarrow> real \<Rightarrow> real \<Rightarrow> CanvasShape option
    \<Rightarrow> (real \<times> real) \<times> Canvas" where
  "applySnapping c env x y shape =
     (if \<not> snapEnabled (store c) then ((x, y), c)
      else
        let snapPoints = getAllSnapPoints c shape;
            tolerance = snapDistance c / stageScale (store c);
            closestX = closest_coordinate tolerance x (map fst snapPoints);
            snappedX = (case closestX of None \<Rightarrow> x | Some v \<Rightarrow> v);
            guidesX = (case closestX of None \<Rightarrow> []
                       | Some v \<Rightarrow> [\<lparr> guide_id = ''temp-v-'' @ now env, guide_type = Vertical,
                                       guide_position = v, guide_isTemp = Some True \<rparr>]);
            closestY = closest_coordinate tolerance y (map snd snapPoints);
            snappedY = (case closestY of None \<Rightarrow> y | Some v \<Rightarrow> v);
            guidesY = (case closestY of None \<Rightarrow> []
                       | Some v \<Rightarrow> [\<lparr> guide_id = ''temp-h-'' @ now env, guide_type = Horizontal,
                                       guide_position = v, guide_isTemp = Some True \<rparr>])
        in ((snappedX, snappedY), c\<lparr> tempGuides := guidesX @ guidesY \<rparr>))"

subsection \<open>The eraser\<close>

text \<open>\<open>v || 1\<close> for an optional number: the default also replaces zero.\<close>

definition or1 :: "real option \<Rightarrow> real" where
  "or1 v = (case v of None \<Rightarrow> 1 | Some w \<Rightarrow> if w = 0 then 1 else w)"

definition handleEraserMouseDown :: "Canvas \<Rightarrow> Canvas" where
  "handleEraserMouseDown c = c\<lparr> erasedElements := [] \<rparr>"

text \<open>
  The store function \<open>collaborativeUpdatePath\<close> that the component calls to fade a touched
  path is not among the store functions at hand; it is the parameter \<open>updatePath\<close>, applied
  to the identifier of the path and its new opacity.
\<close>

definition handleEraserMouseMove ::
    "(string \<Rightarrow> real \<Rightarrow> Store \<Rightarrow> Store) \<Rightarrow> Canvas \<Rightarrow> real \<times> real \<Rightarrow> Canvas" where
  "handleEraserMouseMove updatePath c pos =
     (let hoveredShape = findShapeAtPosition c (fst pos) (snd pos);
          hoveredPath = findPathAtPosition c (fst pos) (snd pos);
          c1 = (case hoveredShape of
                  None \<Rightarrow> c
                | Some sh \<Rightarrow>
                    if shape_id sh \<notin> set (erasedElements c) then
                      (let currentOpacity = or1 (shape_opacity sh);
                           newOpacity = max 0 (currentOpacity - 0.8)
                       in c\<lparr> store := collaborativeUpdateShape (shape_id sh)
                                          (no_updates\<lparr> upd_opacity := Set (Some newOpacity) \<rparr>)
                                          (store c),
                             erasedElements := erasedElements c @ [shape_id sh] \<rparr>)
                    else c)
      in case hoveredPath of
           None \<Rightarrow> c1
         | Some p \<Rightarrow>
             if path_id p \<notin> set (erasedElements c) then
               (let currentOpacity = or1 (path_opacity p);
                    newOpacity = max 0 (currentOpacity - 0.8)
                in c1\<lparr> store := updatePath (path_id p) newOpacity (store c1),
                       erasedElements := erasedElements c1 @ [path_id p] \<rparr>)
             else c1)"

definition handleEraserMouseUp :: "Canvas \<Rightarrow> Canvas" where
  "handleEraserMouseUp c =
     c\<lparr> store := eraseSelected (erasedElements c) (store c), erasedElements := [] \<rparr>"

subsection \<open>Pointer handlers\<close>

definition startTextCreation :: "Canvas \<Rightarrow> Env \<Rightarrow> real \<times> real \<Rightarrow> Canvas" where
  "startTextCreation c env pos =
     (case canvasRect env of
        None \<Rightarrow> c
      | Some (rectLeft, rectTop) \<Rightarrow>
          c\<lparr> editingText := Some
               \<lparr> et_id = now env,
                 et_x = fst pos * stageScale (store c) + fst (stagePos (store c)) + rectLeft,
                 et_y = snd pos * stageScale (store c) + snd (stagePos (store c)) + rectTop,
                 et_text = '''', et_fontSize = 16 \<rparr> \<rparr>)"

text \<open>The loop over the selected identifiers that looks for a resize handle under the
  pointer: the first selected shape with a handle there decides.\<close>

fun resize_hit :: "Canvas \<Rightarrow> real \<times> real \<Rightarrow> string list \<Rightarrow> string option" where
  "resize_hit c pos [] = None"
| "resize_hit c pos (i # ids) =
     (case find (\<lambda>s. shape_id s = i) (shapes (store c)) of
        None \<Rightarrow> resize_hit c pos ids
      | Some shape \<Rightarrow>
          (case getResizeHandle c (fst pos) (snd pos) shape of
             Some handle \<Rightarrow> Some handle
           | None \<Rightarrow> resize_hit c pos ids))"

definition tool_shape_type :: "Tool \<Rightarrow> ShapeType" where
  "tool_shape_type t =
     (case t of RectangleTool \<Rightarrow> Rectangle | CircleTool \<Rightarrow> Circle | ArrowTool \<Rightarrow> Arrow
      | LineTool \<Rightarrow> Line | TextTool \<Rightarrow> Text | ImageTool \<Rightarrow> Image | _ \<Rightarrow> Rectangle)"

definition handleMouseDown :: "Canvas \<Rightarrow> Env \<Rightarrow> MouseEvent \<Rightarrow> Canvas" where
  "handleMouseDown c env e =
     (let c0 = c\<lparr> isMouseDown := True \<rparr>;
          pos = getCanvasCoordinates c env (clientX e) (clientY e);
          t = tool (store c)
      in
      if t = Hand then
        c0\<lparr> isPanning := True, lastPanPoint := Some (clientX e, clientY e) \<rparr>
      else if t = Eraser then handleEraserMouseDown c0
      else if t = Select then
        (case resize_hit c pos (selectedIds (store c)) of
           Some handle \<Rightarrow>
             c0\<lparr> isResizing := True, resizeHandle := Some handle, startPos := Some pos \<rparr>
         | None \<Rightarrow>
             (case findShapeAtPosition c (fst pos) (snd pos) of
                Some clickedShape \<Rightarrow>
                  (let c1 = (if shape_id clickedShape \<notin> set (selectedIds (store c))
                             then c0\<lparr> store := setSelectedIds
                                     (if shiftKey e
                                      then selectedIds (store c) @ [shape_id clickedShape]
                                      else [shape_id clickedShape]) (store c0) \<rparr>
                             else c0)
                   in c1\<lparr> isDragging := True, startPos := Some pos,
                          dragOffset := (fst pos - shape_x clickedShape,
                                         snd pos - shape_y clickedShape) \<rparr>)
              | None \<Rightarrow>
                  (if \<not> shiftKey e then c0\<lparr> store := clearSelection (store c0) \<rparr> else c0)))
      else if t = Pen then c0\<lparr> isDrawing := True, currentPath := [pos] \<rparr>
      else if t = TextTool then startTextCreation c0 env pos
      else if t \<in> {RectangleTool, CircleTool, ArrowTool, LineTool} then
        (case applySnapping c0 env (fst pos) (snd pos) None of
           (snappedPos, c1) \<Rightarrow>
             c1\<lparr> isDrawing := True, startPos := Some pos,
                  currentShape := Some
                    \<lparr> shape_id = now env, shape_type = tool_shape_type t,
                      shape_x = fst snappedPos, shape_y = snd snappedPos,
                      shape_width = Some 0, shape_height = Some 0, shape_radius = None,
                      shape_text = None, shape_fontSize = None, shape_fontFamily = None,
                      shape_backgroundColor = None, shape_isbold = None, shape_isitalic = None,
                      shape_isunderline = None, shape_isstrikethrough = None,
                      shape_points = (if t = ArrowTool \<or> t = LineTool
                                      then Some [fst snappedPos, snd snappedPos,
                                                 fst snappedPos, snd snappedPos]
                                      else None),
                      shape_stroke = strokeColor (store c),
                      shape_strokeWidth = strokeWidth (store c),
                      shape_fill = (if t = RectangleTool \<or> t = CircleTool
                                    then Some (fillColor (store c)) else None),
                      shape_opacity = Some (opacity (store c)), shape_rotation = 0,
                      shape_src = None, shape_filter = None \<rparr> \<rparr>)
      else c0)"

definition resized :: "string \<Rightarrow> CanvasShape \<Rightarrow> real \<Rightarrow> real \<Rightarrow> CanvasShape" where
  "resized handle shape deltaX deltaY =
     (let w = or0 (shape_width shape); h = or0 (shape_height shape) in
      if handle = ''se'' then
        shape\<lparr> shape_width := Some (w + deltaX), shape_height := Some (h + deltaY) \<rparr>
      else if handle = ''sw'' then
        shape\<lparr> shape_x := shape_x shape + deltaX, shape_width := Some (w - deltaX),
               shape_height := Some (h + deltaY) \<rparr>
      else if handle = ''ne'' then
        shape\<lparr> shape_y := shape_y shape + deltaY, shape_width := Some (w + deltaX),
               shape_height := Some (h - deltaY) \<rparr>
      else if handle = ''nw'' then
        shape\<lparr> shape_x := shape_x shape + deltaX, shape_y := shape_y shape + deltaY,
               shape_width := Some (w - deltaX), shape_height := Some (h - deltaY) \<rparr>
      else if handle = ''n'' then
        shape\<lparr> shape_y := shape_y shape + deltaY, shape_height := Some (h - deltaY) \<rparr>
      else if handle = ''s'' then shape\<lparr> shape_height := Some (h + deltaY) \<rparr>
      else if handle = ''w'' then
        shape\<lparr> shape_x := shape_x shape + deltaX, shape_width := Some (w - deltaX) \<rparr>
      else if handle = ''e'' then shape\<lparr> shape_width := Some (w + deltaX) \<rparr>
      else shape)"

definition handleMouseMove ::
    "(string \<Rightarrow> real \<Rightarrow> Store \<Rightarrow> Store) \<Rightarrow> Canvas \<Rightarrow> Env \<Rightarrow> MouseEvent \<Rightarrow> Canvas" where
  "handleMouseMove updatePath c env e =
     (let c0 = (if \<not> isDragging c \<and> \<not> isResizing c \<and> \<not> isDrawing c
                then c\<lparr> tempGuides := [] \<rparr> else c);
          pos = getCanvasCoordinates c env (clientX e) (clientY e);
          ids = selectedIds (store c)
      in
      if tool (store c) = Eraser \<and> isMouseDown c then handleEraserMouseMove updatePath c0 pos
      else if isPanning c \<and> lastPanPoint c \<noteq> None then
        (case lastPanPoint c of
           Some lp \<Rightarrow>
             c0\<lparr> store := setStagePos (fst (stagePos (store c)) + (clientX e - fst lp),
                                       snd (stagePos (store c)) + (clientY e - snd lp)) (store c0),
                  lastPanPoint := Some (clientX e, clientY e) \<rparr>
         | None \<Rightarrow> c0)
      else if isResizing c \<and> (case resizeHandle c of Some h \<Rightarrow> h \<noteq> [] | None \<Rightarrow> False)
              \<and> length ids = 1 \<and> startPos c \<noteq> None then
        (case (resizeHandle c, startPos c, find (\<lambda>s. shape_id s = ids ! 0) (shapes (store c))) of
           (Some handle, Some sp, Some shape) \<Rightarrow>
             c0\<lparr> store := collaborativeUpdateShape (ids ! 0)
                    (shape_as_updates (resized handle shape (fst pos - fst sp) (snd pos - snd sp)))
                    (store c0),
                  startPos := Some pos \<rparr>
         | _ \<Rightarrow> c0)
      else if isDragging c \<and> length ids > 0 \<and> startPos c \<noteq> None then
        (case applySnapping c0 env (fst pos - fst (dragOffset c)) (snd pos - snd (dragOffset c)) None of
           (snappedPos, c1) \<Rightarrow>
             c1\<lparr> store := foldl (\<lambda>st i.
                      if \<exists>shape \<in> set (shapes (store c)). shape_id shape = i
                      then collaborativeUpdateShape i
                             (no_updates\<lparr> upd_x := Set (fst snappedPos),
                                          upd_y := Set (snd snappedPos) \<rparr>) st
                      else st) (store c1) ids,
                  startPos := Some (fst snappedPos + fst (dragOffset c),
                                    snd snappedPos + snd (dragOffset c)) \<rparr>)
      else if \<not> isDrawing c then c0
      else if tool (store c) = Pen then c0\<lparr> currentPath := currentPath c @ [pos] \<rparr>
      else
        (case (currentShape c, startPos c) of
           (Some cs, Some sp) \<Rightarrow>
             (case applySnapping c0 env (fst pos) (snd pos) (Some cs) of
                (snappedPos, c1) \<Rightarrow>
                  c1\<lparr> currentShape := Some
                       (if tool (store c) = RectangleTool \<or> tool (store c) = CircleTool then
                          cs\<lparr> shape_width := Some (fst snappedPos - fst sp),
                              shape_height := Some (snd snappedPos - snd sp) \<rparr>
                        else if tool (store c) = ArrowTool \<or> tool (store c) = LineTool then
                          cs\<lparr> shape_points := Some [fst sp, snd sp, fst snappedPos, snd snappedPos] \<rparr>
                        else cs) \<rparr>)
         | _ \<Rightarrow> c0))"

definition hasSize :: "CanvasShape \<Rightarrow> bool" where
  "hasSize cs =
     (shape_width cs \<noteq> Some 0 \<or> shape_height cs \<noteq> Some 0
      \<or> (case shape_points cs of
            None \<Rightarrow> False
          | Some ps \<Rightarrow> length ps = 4 \<and> (ps ! 0 \<noteq> ps ! 2 \<or> ps ! 1 \<noteq> ps ! 3)))"

definition handleMouseUp :: "Canvas \<Rightarrow> Env \<Rightarrow> Canvas" where
  "handleMouseUp c env =
     (let c0 = c\<lparr> isMouseDown := False \<rparr>;
          c1 = (if tool (store c) = Eraser then handleEraserMouseUp c0 else c0);
          c2 = c1\<lparr> isPanning := False, isDragging := False, isResizing := False,
                   resizeHandle := None, lastPanPoint := None, tempGuides := [] \<rparr>
      in
      if \<not> isDrawing c then c2
      else
        (let c3 = c2\<lparr> isDrawing := False \<rparr>;
             c4 = (if tool (store c) = Pen \<and> length (currentPath c) > 0 then
                     c3\<lparr> store := collaborativeAddPath
                            \<lparr> path_id = now env,
                              path_points = concat (map (\<lambda>(x, y). [x, y]) (currentPath c)),
                              path_stroke = strokeColor (store c),
                              path_strokeWidth = strokeWidth (store c),
                              path_fill = None,
                              path_opacity = Some (opacity (store c)) \<rparr> (store c3),
                          currentPath := [] \<rparr>
                   else
                     (case currentShape c of
                        Some cs \<Rightarrow>
                          (if hasSize cs then c3\<lparr> store := collaborativeAddShape cs (store c3) \<rparr>
                           else c3)\<lparr> currentShape := None \<rparr>
                      | None \<Rightarrow> c3))
         in c4\<lparr> startPos := None \<rparr>))"

subsection \<open>Events and reachable states\<close>

text \<open>
  The events of the component: the three pointer events on the canvas element, a call of a
  store function from anywhere (tool bar, keyboard shortcuts, properties panel, wheel zoom,
  collaboration service), and the remaining handlers of the component itself, which write
  the inline text editor's state and clear the guide lines but none of the mode flags.
\<close>

datatype CanvasEvent =
    MouseDown MouseEvent
  | MouseMove MouseEvent
  | MouseUp
  | StoreCall StoreAction
  | TextEditor "EditingText option"
  | ClearGuides

fun canvas_step ::
    "(string \<Rightarrow> real \<Rightarrow> Store \<Rightarrow> Store) \<Rightarrow> Env \<Rightarrow> CanvasEvent \<Rightarrow> Canvas \<Rightarrow> error + Canvas" where
  "canvas_step updatePath env (MouseDown e) c = Inr (handleMouseDown c env e)"
| "canvas_step updatePath env (MouseMove e) c = Inr (handleMouseMove updatePath c env e)"
| "canvas_step updatePath env MouseUp c = Inr (handleMouseUp c env)"
| "canvas_step updatePath env (StoreCall a) c =
     (case store_step a (store c) of Inl err \<Rightarrow> Inl err | Inr s' \<Rightarrow> Inr (c\<lparr> store := s' \<rparr>))"
| "canvas_step updatePath env (TextEditor t) c = Inr (c\<lparr> editingText := t \<rparr>)"
| "canvas_step updatePath env ClearGuides c = Inr (c\<lparr> tempGuides := [] \<rparr>)"

fun run_events ::
    "(string \<Rightarrow> real \<Rightarrow> Store \<Rightarrow> Store) \<Rightarrow> Env \<Rightarrow> CanvasEvent list \<Rightarrow> Canvas \<Rightarrow> error + Canvas" where
  "run_events updatePath env [] c = Inr c"
| "run_events updatePath env (ev # evs) c =
     (case canvas_step updatePath env ev c of
        Inl err \<Rightarrow> Inl err
      | Inr c' \<Rightarrow> run_events updatePath env evs c')"

definition idle :: "Canvas \<Rightarrow> bool" where
  "idle c = (\<not> isPanning c \<and> \<not> isDragging c \<and> \<not> isResizing c \<and> \<not> isDrawing c)"

definition active_modes :: "Canvas \<Rightarrow> nat" where
  "active_modes c = length (filter id [isPanning c, isDragging c, isResizing c, isDrawing c])"

inductive canvas_reachable :: "(string \<Rightarrow> real \<Rightarrow> Store \<Rightarrow> Store) \<Rightarrow> Canvas \<Rightarrow> bool"
  for updatePath where
  start: "canvas_reachable updatePath (initialCanvas (initialStore initialPaths initialShapes))"
| next_event: "canvas_reachable updatePath c \<Longrightarrow> canvas_step updatePath env ev c = Inr c'
     \<Longrightarrow> canvas_reachable updatePath c'"

text \<open>The states reached when every pointer-down arrives in the idle state.\<close>

fun is_down :: "CanvasEvent \<Rightarrow> bool" where
  "is_down (MouseDown e) = True"
| "is_down ev = False"

inductive canvas_reachable_from_idle :: "(string \<Rightarrow> real \<Rightarrow> Store \<Rightarrow> Store) \<Rightarrow> Canvas \<Rightarrow> bool"
  for updatePath where
  start_idle:
    "canvas_reachable_from_idle updatePath (initialCanvas (initialStore initialPaths initialShapes))"
| next_event_idle:
    "canvas_reachable_from_idle updatePath c \<Longrightarrow> (is_down ev \<longrightarrow> idle c)
     \<Longrightarrow> canvas_step updatePath env ev c = Inr c'
     \<Longrightarrow> canvas_reachable_from_idle updatePath c'"




text \<open>The four mode flags of the component, together.\<close>

definition modes :: "Canvas \<Rightarrow> bool \<times> bool \<times> bool \<times> bool" where
  "modes c = (isPanning c, isDragging c, isResizing c, isDrawing c)"



definition env0 :: Env where
  "env0 = \<lparr> canvasRect = Some (0, 0), now = ''1700000000000'' \<rparr>"

definition click :: MouseEvent where
  "click = \<lparr> clientX = 5, clientY = 5, shiftKey = False \<rparr>"

definition ignore_path_update :: "string \<Rightarrow> real \<Rightarrow> Store \<Rightarrow> Store" where
  "ignore_path_update ident newOpacity s = s"

definition empty_canvas :: Canvas where
  "empty_canvas = initialCanvas (initialStore [] [])"

definition pen_down_canvas :: Canvas where
  "pen_down_canvas = empty_canvas\<lparr> isMouseDown := True, isDrawing := True, currentPath := [(5, 5)] \<rparr>"

definition two_modes_canvas :: Canvas where
  "two_modes_canvas = pen_down_canvas\<lparr> store := setTool Hand (store empty_canvas),
       isPanning := True, lastPanPoint := Some (5, 5) \<rparr>"




section \<open>Properties of the geometry utilities\<close>

subsection \<open>The exact reading\<close>














subsection \<open>Rounding to binary64\<close>











subsection \<open>The binary64 result is never negative\<close>






subsection \<open>The function at \<open>(0.1, 0.1)\<close> on the segment from \<open>(0, 0)\<close> to \<open>(0.3, 0.3)\<close>\<close>
















subsection \<open>Underflow and overflow of the squares\<close>







subsection \<open>The function at \<open>(3, 4)\<close> and the degenerate segment at the origin\<close>












section \<open>Properties of the history log\<close>

lemma saveToHistory_other_fields:
  "paths (saveToHistory s) = paths s" "shapes (saveToHistory s) = shapes s"
  "selectedIds (saveToHistory s) = selectedIds s" "tool (saveToHistory s) = tool s"
  by (simp_all add: saveToHistory_def Let_def)

lemma slice0_cursor:
  assumes "hist_inv s"
  shows "slice0 (history s) (historyIndex s + 1) = take (nat (historyIndex s + 1)) (history s)"
    and "length (slice0 (history s) (historyIndex s + 1)) = nat (historyIndex s + 1)"
  using assms by (auto simp: slice0_def hist_inv_def)

lemma saveToHistory_cursor_top:
  assumes "hist_inv s"
  shows "historyIndex (saveToHistory s) = int (length (history (saveToHistory s))) - 1"
  using slice0_cursor(2)[OF assms] assms
  by (auto simp: saveToHistory_def Let_def hist_inv_def)

lemma saveToHistory_hist_inv: "hist_inv s \<Longrightarrow> hist_inv (saveToHistory s)"
  using saveToHistory_cursor_top[of s]
  by (auto simp: hist_inv_def saveToHistory_def Let_def)

lemma hist_inv_cong:
  "history s' = history s \<Longrightarrow> historyIndex s' = historyIndex s \<Longrightarrow> hist_inv s' = hist_inv s"
  by (simp add: hist_inv_def)

lemma undo_hist_inv: "hist_inv s \<Longrightarrow> undo s = Inr s' \<Longrightarrow> hist_inv s'"
  by (auto simp: undo_def hist_inv_def js_index_def split: if_splits option.splits)

lemma redo_hist_inv: "hist_inv s \<Longrightarrow> redo s = Inr s' \<Longrightarrow> hist_inv s'"
  by (auto simp: redo_def hist_inv_def js_index_def split: if_splits option.splits)

lemma initialStore_hist_inv: "hist_inv (initialStore ps shs)"
  by (simp add: hist_inv_def initialStore_def)

lemma store_step_hist_inv:
  assumes "hist_inv s" "store_step a s = Inr s'"
  shows "hist_inv s'"
proof (cases a)
  case Undo
  then show ?thesis using assms undo_hist_inv by simp
next
  case Redo
  then show ?thesis using assms redo_hist_inv by simp
qed (use assms in \<open>auto simp: addPath_def addShape_def updateShape_def deleteShape_def deletePath_def
    clearPaths_def clearShapes_def clearCanvas_def setSelectedIds_def addToSelection_def
    removeFromSelection_def clearSelection_def deleteSelected_def setTool_def setStagePos_def
    setStageScale_def setSnapEnabled_def loadFromLocalStorage_def updateImage_def setPaths_def
    setShapes_def collaborativeAddPath_def collaborativeAddShape_def collaborativeUpdateShape_def
    collaborativeDeleteSelected_def collaborativeClearCanvas_def eraseSelected_def
    intro!: saveToHistory_hist_inv elim: hist_inv_cong[THEN iffD2, rotated 2] split: if_splits\<close>)

lemma store_reachable_hist_inv: "store_reachable s \<Longrightarrow> hist_inv s"
  by (induction rule: store_reachable.induct) (auto intro: initialStore_hist_inv store_step_hist_inv)

lemma last_n_append_last_n: "last_n n (last_n n xs @ ys) = last_n n (xs @ ys)"
proof (cases "length xs \<le> n")
  case True
  then show ?thesis by (simp add: last_n_def)
next
  case False
  then have "length xs + length ys - n = (length xs - n) + length ys" by simp
  then show ?thesis using False by (simp add: last_n_def add.commute)
qed

lemma last_n_short: "length xs \<le> n \<Longrightarrow> last_n n xs = xs"
  by (simp add: last_n_def)

lemma length_last_n: "length (last_n n xs) = min n (length xs)"
  by (auto simp: last_n_def)

lemma saveToHistory_at_top:
  assumes "at_top s"
  shows "history (saveToHistory s) = last_n 50 (history s @ [snapshot s]) \<and> at_top (saveToHistory s)"
proof -
  have idx: "historyIndex s = int (length (history s)) - 1" and len: "length (history s) \<le> 50"
    using assms by (simp_all add: at_top_def)
  have sl: "slice0 (history s) (historyIndex s + 1) = history s"
    using idx by (simp add: slice0_def)
  show ?thesis
  proof (cases "length (history s) = 50")
    case True
    then have ne: "history s \<noteq> []" by auto
    have eq: "saveToHistory s = s\<lparr> history := tl (history s) @ [snapshot s] \<rparr>"
      using True ne by (simp add: saveToHistory_def sl snapshot_def)
    have "history (saveToHistory s) = last_n 50 (history s @ [snapshot s])"
      using True ne by (simp add: eq last_n_def drop_Suc flip: tl_drop)
    moreover have "at_top (saveToHistory s)"
      using True ne idx by (simp add: eq at_top_def)
    ultimately show ?thesis by simp
  next
    case False
    then have lt: "length (history s) < 50" using len by simp
    have eq: "saveToHistory s = s\<lparr> historyIndex := historyIndex s + 1,
                                     history := history s @ [snapshot s] \<rparr>"
      using lt by (simp add: saveToHistory_def sl snapshot_def)
    have "history (saveToHistory s) = last_n 50 (history s @ [snapshot s])"
      using lt by (simp add: eq last_n_def)
    moreover have "at_top (saveToHistory s)"
      using lt idx by (simp add: eq at_top_def)
    ultimately show ?thesis by simp
  qed
qed

lemma commits_at_top:
  "at_top s \<Longrightarrow> history (commits es s) = last_n 50 (history s @ es) \<and> at_top (commits es s)"
proof (induction es arbitrary: s)
  case Nil
  then show ?case by (simp add: last_n_short at_top_def)
next
  case (Cons e es)
  let ?s1 = "s\<lparr> paths := entry_paths e, shapes := entry_shapes e \<rparr>"
  have top1: "at_top ?s1" using Cons.prems by (simp add: at_top_def)
  have snap: "snapshot ?s1 = e" by (simp add: snapshot_def)
  have h1: "history (saveToHistory ?s1) = last_n 50 (history s @ [e])"
    using saveToHistory_at_top[OF top1] snap by simp
  have "history (commits (e # es) s) = last_n 50 (last_n 50 (history s @ [e]) @ es)"
    using Cons.IH[OF saveToHistory_at_top[OF top1, THEN conjunct2]] h1 by simp
  also have "\<dots> = last_n 50 (history s @ e # es)"
    by (simp add: last_n_append_last_n)
  finally show ?case
    using Cons.IH[OF saveToHistory_at_top[OF top1, THEN conjunct2]] by simp
qed

lemma initial_empty_at_top: "at_top (initialStore [] [])"
  by (simp add: at_top_def initialStore_def)

lemma commits_from_empty:
  "history (commits es (initialStore [] [])) = last_n 50 es"
  "historyIndex (commits es (initialStore [] [])) = int (min 50 (length es)) - 1"
  using commits_at_top[OF initial_empty_at_top, of es]
  by (auto simp: at_top_def length_last_n initialStore_def)

text \<open>Undo, called again and again, walks the cursor down to the oldest entry and stays there.\<close>

lemma undo_step:
  assumes "0 < historyIndex s" "historyIndex s < int (length (history s))"
  shows "undo s = Inr (s\<lparr> paths := entry_paths (history s ! nat (historyIndex s - 1)),
                         shapes := entry_shapes (history s ! nat (historyIndex s - 1)),
                         historyIndex := historyIndex s - 1, selectedIds := [] \<rparr>)"
  using assms by (simp add: undo_def js_index_def)

lemma undo_bottom: "historyIndex s \<le> 0 \<Longrightarrow> undo s = Inr s"
  by (simp add: undo_def)

lemma repeat_undo:
  assumes "0 \<le> historyIndex s" "historyIndex s < int (length (history s))"
  shows "\<exists>s'. repeat_call n undo s = Inr s' \<and> history s' = history s
            \<and> historyIndex s' = max 0 (historyIndex s - int n)
            \<and> (0 < n \<and> 0 < historyIndex s \<longrightarrow>
                  paths s' = entry_paths (history s ! nat (historyIndex s'))
                \<and> shapes s' = entry_shapes (history s ! nat (historyIndex s')))"
  using assms
proof (induction n arbitrary: s)
  case 0
  then show ?case by simp
next
  case (Suc n)
  show ?case
  proof (cases "historyIndex s = 0")
    case True
    then have u: "undo s = Inr s" by (simp add: undo_bottom)
    from Suc.IH[OF Suc.prems] True u show ?thesis by auto
  next
    case False
    then have pos: "0 < historyIndex s" using Suc.prems by simp
    let ?s1 = "s\<lparr> paths := entry_paths (history s ! nat (historyIndex s - 1)),
                         shapes := entry_shapes (history s ! nat (historyIndex s - 1)),
                         historyIndex := historyIndex s - 1, selectedIds := [] \<rparr>"
    have u: "undo s = Inr ?s1" using undo_step[OF pos Suc.prems(2)] .
    have p1: "0 \<le> historyIndex ?s1" "historyIndex ?s1 < int (length (history ?s1))"
      using pos Suc.prems by auto
    from Suc.IH[OF p1] obtain s' where s': "repeat_call n undo ?s1 = Inr s'"
      "history s' = history s" "historyIndex s' = max 0 (historyIndex s - 1 - int n)"
      "0 < n \<and> 0 < historyIndex s - 1 \<longrightarrow>
                  paths s' = entry_paths (history s ! nat (historyIndex s'))
                \<and> shapes s' = entry_shapes (history s ! nat (historyIndex s'))"
      by auto
    have r: "repeat_call (Suc n) undo s = Inr s'" using u s'(1) by simp
    have idx: "historyIndex s' = max 0 (historyIndex s - int (Suc n))" using s'(3) by simp
    have content: "paths s' = entry_paths (history s ! nat (historyIndex s'))
                \<and> shapes s' = entry_shapes (history s ! nat (historyIndex s'))"
    proof (cases "0 < n \<and> 0 < historyIndex s - 1")
      case True
      then show ?thesis using s'(4) by simp
    next
      case False
      then consider "n = 0" | "n > 0" "historyIndex s = 1" using pos by fastforce
      then show ?thesis
      proof cases
        case 1
        then have "s' = ?s1" using s'(1) by simp
        then show ?thesis by simp
      next
        case 2
        have "undo ?s1 = Inr ?s1" using 2 by (simp add: undo_bottom)
        have stay: "\<And>k t. historyIndex t \<le> 0 \<Longrightarrow> repeat_call k undo t = Inr t"
        proof -
          fix k t show "historyIndex t \<le> 0 \<Longrightarrow> repeat_call k undo t = Inr t"
            by (induction k) (simp_all add: undo_bottom)
        qed
        have "repeat_call n undo ?s1 = Inr ?s1" using 2 by (intro stay) simp
        then have "s' = ?s1" using s'(1) by simp
        then show ?thesis using 2 by simp
      qed
    qed
    show ?thesis using r s'(2) idx content by blast
  qed
qed

lemma saveToHistory_general:
  assumes "hist_inv s"
  shows "history (saveToHistory s) =
           (if historyIndex s + 2 > 50
            then tl (take (nat (historyIndex s + 1)) (history s) @ [snapshot s])
            else take (nat (historyIndex s + 1)) (history s) @ [snapshot s])"
    and "historyIndex (saveToHistory s) =
           (if historyIndex s + 2 > 50 then historyIndex s else historyIndex s + 1)"
  using slice0_cursor[OF assms] assms
  by (auto simp: saveToHistory_def Let_def snapshot_def hist_inv_def)

lemma saveToHistory_bounded:
  assumes "hist_inv s" "length (history s) \<le> 50"
  shows "length (history (saveToHistory s)) \<le> 50"
  using saveToHistory_general(1)[OF assms(1)] assms
  by (auto simp: hist_inv_def)

lemma sixty:
  assumes "length es = 60"
  shows "history (commits es (initialStore [] [])) = drop 10 es"
   "historyIndex (commits es (initialStore [] [])) = 49"
  using commits_from_empty[of es] assms by (simp_all add: last_n_def)

lemma prefix_commits:
  "length (history (commits (take n es) (initialStore [] []))) = min 50 (min n (length es))"
  "historyIndex (commits (take n es) (initialStore [] [])) = int (min 50 (min n (length es))) - 1"
  using commits_from_empty[of "take n es"] by (simp_all add: length_last_n)

lemma undo50:
  assumes "length es = 60"
  shows "\<exists>s'. repeat_call 50 undo (commits es (initialStore [] [])) = Inr s'
     \<and> historyIndex s' = 0 \<and> history s' = drop 10 es
     \<and> paths s' = entry_paths (es ! 10) \<and> shapes s' = entry_shapes (es ! 10)
     \<and> undo s' = Inr s'"
proof -
  let ?s = "commits es (initialStore [] [])"
  have h: "history ?s = drop 10 es" and i: "historyIndex ?s = 49"
    using sixty[OF assms] by simp_all
  have "0 \<le> historyIndex ?s" "historyIndex ?s < int (length (history ?s))"
    using h i assms by simp_all
  from repeat_undo[OF this, of 50] obtain s' where
    s': "repeat_call 50 undo ?s = Inr s'" "history s' = history ?s"
       "historyIndex s' = max 0 (historyIndex ?s - int 50)"
       "paths s' = entry_paths (history ?s ! nat (historyIndex s'))
                \<and> shapes s' = entry_shapes (history ?s ! nat (historyIndex s'))"
    using i by auto
  have i0: "historyIndex s' = 0" using s'(3) i by simp
  have "history ?s ! 0 = es ! 10" using h assms by simp
  then show ?thesis using s' i0 h by (auto simp: undo_bottom)
qed

lemma redo_undo_synced:
  assumes "0 \<le> historyIndex s" "canRedo s"
      and "js_index (history s) (historyIndex s) = Some (snapshot s)"
  shows "\<exists>s1 s2. redo s = Inr s1 \<and> undo s1 = Inr s2 \<and> paths s2 = paths s \<and> shapes s2 = shapes s
      \<and> historyIndex s2 = historyIndex s \<and> history s2 = history s"
  using assms
  by (auto simp: redo_def undo_def canRedo_def js_index_def snapshot_def split: if_splits)

lemma absent_noop:
  assumes "ident \<notin> shape_id ` set (shapes s)" "ident \<notin> path_id ` set (paths s)"
  shows "paths (updateShape ident updates s) = paths s"
    "shapes (updateShape ident updates s) = shapes s"
    "paths (deleteShape ident s) = paths s"
    "shapes (deleteShape ident s) = shapes s"
    "paths (deletePath ident s) = paths s"
    "shapes (deletePath ident s) = shapes s"
proof -
  have m: "map (\<lambda>shape. if shape_id shape = ident then merge_shape shape updates else shape) (shapes s) = shapes s"
    using assms(1) by (intro map_idI) auto
  have f: "filter (\<lambda>shape. shape_id shape \<noteq> ident) (shapes s) = shapes s"
    using assms(1) by (intro filter_True) auto
  have g: "filter (\<lambda>path. path_id path \<noteq> ident) (paths s) = paths s"
    using assms(2) by (intro filter_True) auto
  show "paths (updateShape ident updates s) = paths s"
    "shapes (updateShape ident updates s) = shapes s"
    "paths (deleteShape ident s) = paths s"
    "shapes (deleteShape ident s) = shapes s"
    "paths (deletePath ident s) = paths s"
    "shapes (deletePath ident s) = shapes s"
    by (simp_all add: updateShape_def deleteShape_def deletePath_def saveToHistory_other_fields m f g)
qed

lemma saveToHistory_synced:
  assumes "hist_inv s"
  shows "cursor_synced (saveToHistory s)"
proof -
  have top: "historyIndex (saveToHistory s) = int (length (history (saveToHistory s))) - 1"
    by (rule saveToHistory_cursor_top[OF assms])
  have nel: "history (saveToHistory s) \<noteq> [] \<and> last (history (saveToHistory s)) = snapshot s"
  proof (cases "historyIndex s + 2 > 50")
    case True
    then have "take (nat (historyIndex s + 1)) (history s) \<noteq> []"
      using assms by (auto simp: hist_inv_def)
    then have "tl (take (nat (historyIndex s + 1)) (history s) @ [snapshot s])
               = tl (take (nat (historyIndex s + 1)) (history s)) @ [snapshot s]"
      by simp
    then show ?thesis using saveToHistory_general(1)[OF assms] True by simp
  next
    case False
    then show ?thesis using saveToHistory_general(1)[OF assms] by simp
  qed
  then have ne: "history (saveToHistory s) \<noteq> []" and l: "last (history (saveToHistory s)) = snapshot s"
    by simp_all
  have "js_index (history (saveToHistory s)) (historyIndex (saveToHistory s))
        = Some (last (history (saveToHistory s)))"
  proof -
    have "nat (int (length (history (saveToHistory s))) - 1) = length (history (saveToHistory s)) - 1"
      by simp
    then show ?thesis using ne top by (simp add: js_index_def last_conv_nth)
  qed
  moreover have "snapshot (saveToHistory s) = snapshot s"
    by (simp add: snapshot_def saveToHistory_other_fields)
  ultimately show ?thesis using l by (simp add: cursor_synced_def)
qed

lemma undo_synced: "hist_inv s \<Longrightarrow> cursor_synced s \<Longrightarrow> undo s = Inr s' \<Longrightarrow> cursor_synced s'"
  by (auto simp: undo_def cursor_synced_def js_index_def snapshot_def hist_inv_def
      split: if_splits option.splits)

lemma redo_synced: "hist_inv s \<Longrightarrow> cursor_synced s \<Longrightarrow> redo s = Inr s' \<Longrightarrow> cursor_synced s'"
  by (auto simp: redo_def cursor_synced_def js_index_def snapshot_def hist_inv_def
      split: if_splits option.splits)

lemma cursor_synced_cong:
  "history s' = history s \<Longrightarrow> historyIndex s' = historyIndex s \<Longrightarrow> paths s' = paths s
   \<Longrightarrow> shapes s' = shapes s \<Longrightarrow> cursor_synced s' = cursor_synced s"
  by (simp add: cursor_synced_def snapshot_def)

lemma initialStore_synced: "cursor_synced (initialStore ps shs)"
  by (simp add: cursor_synced_def initialStore_def js_index_def snapshot_def)

lemma local_step_synced:
  assumes "hist_inv s" "cursor_synced s" "local_action a" "store_step a s = Inr s'"
  shows "cursor_synced s'"
proof (cases a)
  case Undo
  then show ?thesis using assms undo_synced by simp
next
  case Redo
  then show ?thesis using assms redo_synced by simp
qed (use assms in \<open>auto simp: addPath_def addShape_def updateShape_def deleteShape_def deletePath_def
    clearPaths_def clearShapes_def clearCanvas_def setSelectedIds_def addToSelection_def
    removeFromSelection_def clearSelection_def deleteSelected_def setTool_def setStagePos_def
    setStageScale_def setSnapEnabled_def loadFromLocalStorage_def updateImage_def
    collaborativeAddPath_def collaborativeAddShape_def collaborativeUpdateShape_def
    collaborativeDeleteSelected_def collaborativeClearCanvas_def eraseSelected_def
    intro!: saveToHistory_synced
    elim: hist_inv_cong[THEN iffD2, rotated 2] cursor_synced_cong[THEN iffD2, rotated 4]
    split: if_splits\<close>)

lemma local_reachable_imp_reachable: "store_reachable_local s \<Longrightarrow> store_reachable s"
  by (induction rule: store_reachable_local.induct) (auto intro: store_reachable.intros)

lemma local_reachable_synced: "store_reachable_local s \<Longrightarrow> cursor_synced s"
proof (induction rule: store_reachable_local.induct)
  case (initial_local initialPaths initialShapes)
  then show ?case by (rule initialStore_synced)
next
  case (step_local s a s')
  then show ?case
    using local_step_synced store_reachable_hist_inv local_reachable_imp_reachable by blast
qed

lemma redo_undo_local:
  assumes "store_reachable_local s" "canRedo s"
  shows "\<exists>s2. redo_then_undo s = Inr s2 \<and> paths s2 = paths s \<and> shapes s2 = shapes s"
proof -
  have inv: "hist_inv s" using assms(1) local_reachable_imp_reachable store_reachable_hist_inv by blast
  have syn: "cursor_synced s" using assms(1) by (rule local_reachable_synced)
  have "history s \<noteq> []" using assms(2) inv by (auto simp: canRedo_def hist_inv_def)
  then have "js_index (history s) (historyIndex s) = Some (snapshot s)"
    using syn by (simp add: cursor_synced_def)
  moreover from this have "0 \<le> historyIndex s" by (auto simp: js_index_def split: if_splits)
  ultimately show ?thesis
    using redo_undo_synced[OF _ assms(2)] by (auto simp: redo_then_undo_def)
qed

lemma remote_replaced_state_run:
  "run_actions [AddPath path_a, AddPath path_b, Undo, SetPaths []] (initialStore [] [])
     = Inr remote_replaced_state"
  by (simp add: remote_replaced_state_def addPath_def saveToHistory_def initialStore_def slice0_def
      undo_def js_index_def setPaths_def Let_def)

lemma run_actions_reachable:
  "store_reachable s \<Longrightarrow> run_actions as s = Inr s' \<Longrightarrow> store_reachable s'"
  by (induction as arbitrary: s) (auto split: sum.splits intro: store_reachable.step)

lemma remote_replaced_state_facts:
  "store_reachable remote_replaced_state \<and> canRedo remote_replaced_state
   \<and> paths remote_replaced_state = []
   \<and> map_sum id paths (redo_then_undo remote_replaced_state) = Inr [path_a]"
proof -
  have "store_reachable remote_replaced_state"
    using run_actions_reachable[OF store_reachable.initial remote_replaced_state_run] .
  then show ?thesis
    by (simp add: remote_replaced_state_def canRedo_def redo_then_undo_def redo_def undo_def
        js_index_def initialStore_def)
qed

lemma run_actions_local_reachable:
  "store_reachable_local s \<Longrightarrow> list_all local_action as \<Longrightarrow> run_actions as s = Inr s'
   \<Longrightarrow> store_reachable_local s'"
  by (induction as arbitrary: s) (auto split: sum.splits intro: store_reachable_local.step_local)

lemma length_sixty_entries: "length sixty_entries = 60"
  by (simp add: sixty_entries_def)



text \<open>
  C1. The history log is bounded at 50 entries. A commit in a state whose cursor lies inside
  a log of at most 50 entries drops the entries after the cursor, appends the snapshot of the
  model and advances the cursor; when that would make 51 entries it removes the oldest entry
  instead of advancing the cursor, and the log never exceeds 50 entries. Starting from the
  empty history, after \<open>n\<close> of 60 commits the log has \<open>min 50 n\<close> entries with the cursor on
  the newest; after all 60 it holds exactly the last 50 snapshots, and 50 calls of \<open>undo\<close>
  return without error in the state of the 11th commit, the oldest one retained, where a
  further \<open>undo\<close> changes nothing.
\<close>

theorem history_bounded_at_50:
  assumes "length es = 60" and "hist_inv s" and "length (history s) \<le> 50"
  shows "history (saveToHistory s) =
           (if historyIndex s + 2 > 50
            then tl (take (nat (historyIndex s + 1)) (history s) @ [snapshot s])
            else take (nat (historyIndex s + 1)) (history s) @ [snapshot s])
       \<and> historyIndex (saveToHistory s) =
           (if historyIndex s + 2 > 50 then historyIndex s else historyIndex s + 1)
       \<and> length (history (saveToHistory s)) \<le> 50
       \<and> length (history (commits (take n es) (initialStore [] []))) = min 50 (min n 60)
       \<and> historyIndex (commits (take n es) (initialStore [] [])) = int (min 50 (min n 60)) - 1
       \<and> length (history (commits es (initialStore [] []))) = 50
       \<and> history (commits es (initialStore [] [])) = drop 10 es
       \<and> historyIndex (commits es (initialStore [] [])) = 49
       \<and> (\<exists>s'. repeat_call 50 undo (commits es (initialStore [] [])) = Inr s'
              \<and> historyIndex s' = 0 \<and> history s' = drop 10 es
              \<and> paths s' = entry_paths (es ! 10) \<and> shapes s' = entry_shapes (es ! 10)
              \<and> undo s' = Inr s')"
proof -
  have "length (history (commits es (initialStore [] []))) = 50"
    using sixty(1)[OF assms(1)] assms(1) by simp
  then show ?thesis
    using saveToHistory_general[OF assms(2)] saveToHistory_bounded[OF assms(2,3)]
      prefix_commits[of n es] sixty[OF assms(1)] undo50[OF assms(1)] assms(1)
    by simp
qed

theorem history_bounded_at_50_witness:
  "length sixty_entries = 60 \<and> hist_inv (initialStore [] [])
   \<and> length (history (initialStore [] [])) \<le> 50
   \<and> length (history (commits sixty_entries (initialStore [] []))) = 50
   \<and> history (commits sixty_entries (initialStore [] [])) = drop 10 sixty_entries
   \<and> (\<exists>s'. repeat_call 50 undo (commits sixty_entries (initialStore [] [])) = Inr s'
          \<and> historyIndex s' = 0 \<and> paths s' = replicate 10 path_a)"
proof -
  have h: "hist_inv (initialStore [] [])" by (rule initialStore_hist_inv)
  have l: "length (history (initialStore [] [])) \<le> 50" by (simp add: initialStore_def)
  have e: "entry_paths (sixty_entries ! 10) = replicate 10 path_a"
    by (simp add: sixty_entries_def numbered_entry_def)
  show ?thesis
    using history_bounded_at_50[OF length_sixty_entries h l, of 0] length_sixty_entries h l e
    by auto
qed

text \<open>
  C7, as stated: in every state in which \<open>redo\<close> is enabled, \<open>redo\<close> followed by \<open>undo\<close>
  restores the paths and shapes. It fails once the collaboration service has replaced the
  model: after two local additions, one undo and \<open>setPaths([])\<close>, the store is reachable,
  \<open>redo\<close> is enabled and the model holds no path, yet \<open>redo\<close> followed by \<open>undo\<close> ends with
  the path of the first addition.
\<close>

theorem redo_undo_counterexample:
  "store_reachable remote_replaced_state \<and> canRedo remote_replaced_state
   \<and> paths remote_replaced_state = []
   \<and> map_sum id paths (redo_then_undo remote_replaced_state) = Inr [path_a]"
  by (rule remote_replaced_state_facts)

text \<open>
  C7, amended. In every state reached through the store's own operations (any sequence of
  store calls other than \<open>setPaths\<close> and \<open>setShapes\<close>, through which the collaboration
  service replaces the model without a commit) in which \<open>redo\<close> is enabled, \<open>redo\<close> followed
  by \<open>undo\<close> returns without error and restores the paths and shapes to their values before
  the \<open>redo\<close>.
\<close>

theorem redo_undo_restores_local:
  assumes "store_reachable_local s" and "canRedo s"
  shows "\<exists>s2. redo_then_undo s = Inr s2 \<and> paths s2 = paths s \<and> shapes s2 = shapes s"
  using redo_undo_local[OF assms] .

theorem redo_undo_restores_local_witness:
  "store_reachable_local (remote_replaced_state\<lparr> paths := [path_a] \<rparr>)
   \<and> canRedo (remote_replaced_state\<lparr> paths := [path_a] \<rparr>)
   \<and> (\<exists>s2. redo_then_undo (remote_replaced_state\<lparr> paths := [path_a] \<rparr>) = Inr s2
          \<and> paths s2 = [path_a] \<and> shapes s2 = [])"
proof -
  have run: "run_actions [AddPath path_a, AddPath path_b, Undo] (initialStore [] [])
      = Inr (remote_replaced_state\<lparr> paths := [path_a] \<rparr>)"
    by (simp add: remote_replaced_state_def addPath_def saveToHistory_def initialStore_def
        slice0_def undo_def js_index_def Let_def)
  have r: "store_reachable_local (remote_replaced_state\<lparr> paths := [path_a] \<rparr>)"
    using run_actions_local_reachable[OF store_reachable_local.initial_local _ run] by simp
  have c: "canRedo (remote_replaced_state\<lparr> paths := [path_a] \<rparr>)"
    by (simp add: canRedo_def remote_replaced_state_def)
  have "shapes (remote_replaced_state\<lparr> paths := [path_a] \<rparr>) = []"
    by (simp add: remote_replaced_state_def initialStore_def)
  then show ?thesis using redo_undo_restores_local[OF r c] r c by simp
qed

text \<open>
  C8. For every identifier that no shape and no path of the model carries, \<open>updateShape\<close>,
  \<open>deleteShape\<close> and \<open>deletePath\<close> return without error and leave the paths and the shapes
  equal, element by element, to what they were.
\<close>

theorem absent_id_operations_keep_model:
  assumes "ident \<notin> shape_id ` set (shapes s)" and "ident \<notin> path_id ` set (paths s)"
  shows "(\<exists>s'. store_step (UpdateShape ident updates) s = Inr s'
              \<and> paths s' = paths s \<and> shapes s' = shapes s)
       \<and> (\<exists>s'. store_step (DeleteShape ident) s = Inr s'
              \<and> paths s' = paths s \<and> shapes s' = shapes s)
       \<and> (\<exists>s'. store_step (DeletePath ident) s = Inr s'
              \<and> paths s' = paths s \<and> shapes s' = shapes s)"
  using absent_noop[OF assms] by simp

theorem absent_id_operations_keep_model_witness:
  "''zz'' \<notin> shape_id ` set (shapes (initialStore [path_a] []))
   \<and> ''zz'' \<notin> path_id ` set (paths (initialStore [path_a] []))
   \<and> paths (updateShape ''zz'' no_updates (initialStore [path_a] [])) = [path_a]
   \<and> shapes (deleteShape ''zz'' (initialStore [path_a] [])) = []
   \<and> paths (deletePath ''zz'' (initialStore [path_a] [])) = [path_a]"
proof -
  have a: "''zz'' \<notin> shape_id ` set (shapes (initialStore [path_a] []))"
    by (simp add: initialStore_def)
  have b: "''zz'' \<notin> path_id ` set (paths (initialStore [path_a] []))"
    by (simp add: initialStore_def path_a_def)
  have p: "paths (initialStore [path_a] []) = [path_a]" "shapes (initialStore [path_a] []) = []"
    by (simp_all add: initialStore_def)
  show ?thesis
    using absent_id_operations_keep_model[OF a b, of no_updates] a b p by simp
qed

section \<open>Properties of the stroke outliner\<close>

lemma length_inputPoints: "length (inputPoints points sim) = length points"
  by (simp add: inputPoints_def)

lemma length_forward_at:
  "length (forward_at strokeSize thinning ip i) = (if i = 0 then 2 else 1)"
  by (simp add: forward_at_def Let_def split: prod.splits)

lemma length_forward_rail:
  "length (concat (map (forward_at strokeSize thinning ip) [0..<n])) = (if n = 0 then 0 else n + 1)"
  by (induction n) (simp_all add: length_forward_at)

lemma length_getStroke:
  "length (getStroke points options) = (if points = [] then 0 else 2 * length points + 1)"
  by (simp add: getStroke_def Let_def length_forward_rail length_inputPoints)

lemma getStroke_single: "length (getStroke [(0, 0)] default_options) = 3"
  by (simp add: length_getStroke)

lemma getStroke_single_ne: "getStroke [(0, 0)] default_options \<noteq> []"
  using getStroke_single by auto

lemma getStroke_mono:
  "length ps \<le> length qs \<Longrightarrow> length (getStroke ps options) \<le> length (getStroke qs options)"
  by (auto simp: length_getStroke)

section \<open>Properties of snapping\<close>












section \<open>Properties of the pointer handlers\<close>

lemma modes_updates [simp]:
  "modes (c\<lparr> store := s \<rparr>) = modes c"
  "modes (c\<lparr> isMouseDown := b \<rparr>) = modes c"
  "modes (c\<lparr> tempGuides := g \<rparr>) = modes c"
  "modes (c\<lparr> erasedElements := er \<rparr>) = modes c"
  "modes (c\<lparr> editingText := et \<rparr>) = modes c"
  "modes (c\<lparr> startPos := sp \<rparr>) = modes c"
  "modes (c\<lparr> lastPanPoint := lp \<rparr>) = modes c"
  "modes (c\<lparr> currentPath := cp \<rparr>) = modes c"
  "modes (c\<lparr> currentShape := cs \<rparr>) = modes c"
  "modes (c\<lparr> dragOffset := d \<rparr>) = modes c"
  "modes (c\<lparr> resizeHandle := rh \<rparr>) = modes c"
  by (simp_all add: modes_def)

lemma modes_applySnapping [simp]: "modes (snd (applySnapping c env x y shape)) = modes c"
  by (simp add: applySnapping_def Let_def)

lemma modes_startTextCreation [simp]: "modes (startTextCreation c env pos) = modes c"
  by (simp add: startTextCreation_def split_beta split: option.splits)

lemma modes_handleEraserMouseDown [simp]: "modes (handleEraserMouseDown c) = modes c"
  by (simp add: handleEraserMouseDown_def)

lemma modes_handleEraserMouseUp [simp]: "modes (handleEraserMouseUp c) = modes c"
  by (simp add: handleEraserMouseUp_def)

lemma modes_handleEraserMouseMove [simp]: "modes (handleEraserMouseMove up c pos) = modes c"
  by (simp add: handleEraserMouseMove_def Let_def split: option.splits)

lemma active_modes_alt:
  "active_modes c = (case modes c of (p, d, r, w) \<Rightarrow> length (filter id [p, d, r, w]))"
  by (simp add: active_modes_def modes_def)

lemma idle_alt: "idle c \<longleftrightarrow> modes c = (False, False, False, False)"
  by (auto simp: idle_def modes_def)

lemma modes_handleMouseMove: "modes (handleMouseMove up c env e) = modes c"
  by (simp add: handleMouseMove_def Let_def split_beta split: option.splits)

lemma modes_handleMouseUp: "modes (handleMouseUp c env) = (False, False, False, False)"
  by (simp add: handleMouseUp_def Let_def modes_def handleEraserMouseUp_def split: option.splits)

lemma guides_handleMouseUp: "tempGuides (handleMouseUp c env) = []"
  by (simp add: handleMouseUp_def Let_def handleEraserMouseUp_def split: option.splits)

lemma modes_handleMouseDown:
  "idle c \<Longrightarrow> active_modes (handleMouseDown c env e) \<le> 1"
  unfolding active_modes_alt idle_alt
  by (simp add: handleMouseDown_def Let_def split_beta modes_def handleEraserMouseDown_def
       startTextCreation_def applySnapping_def split: option.splits)

lemma canvas_step_modes:
  assumes "canvas_step up env ev c = Inr c'" "\<not> is_down ev" "ev \<noteq> MouseUp"
  shows "modes c' = modes c"
  using assms by (cases ev) (auto simp: modes_handleMouseMove split: sum.splits)

lemma active_modes_idle: "idle c \<Longrightarrow> active_modes c = 0"
  by (simp add: idle_def active_modes_def)

lemma from_idle_modes:
  "canvas_reachable_from_idle up c \<Longrightarrow> active_modes c \<le> 1"
proof (induction rule: canvas_reachable_from_idle.induct)
  case (start_idle initialPaths initialShapes)
  then show ?case by (simp add: active_modes_def initialCanvas_def)
next
  case (next_event_idle c ev env c')
  show ?case
  proof (cases ev)
    case (MouseDown e)
    then have "idle c" using next_event_idle.hyps(2) by simp
    then show ?thesis using next_event_idle.hyps(3) MouseDown modes_handleMouseDown by auto
  next
    case MouseUp
    then have "c' = handleMouseUp c env" using next_event_idle.hyps(3) by simp
    then show ?thesis using modes_handleMouseUp[of c env] by (simp add: active_modes_alt)
  next
    case (MouseMove e)
    then have "modes c' = modes c"
      using canvas_step_modes[OF next_event_idle.hyps(3)] by simp
    then show ?thesis using next_event_idle.IH by (simp add: active_modes_alt)
  next
    case (StoreCall a)
    then have "modes c' = modes c"
      using canvas_step_modes[OF next_event_idle.hyps(3)] by simp
    then show ?thesis using next_event_idle.IH by (simp add: active_modes_alt)
  next
    case (TextEditor t)
    then have "modes c' = modes c"
      using canvas_step_modes[OF next_event_idle.hyps(3)] by simp
    then show ?thesis using next_event_idle.IH by (simp add: active_modes_alt)
  next
    case ClearGuides
    then have "modes c' = modes c"
      using canvas_step_modes[OF next_event_idle.hyps(3)] by simp
    then show ?thesis using next_event_idle.IH by (simp add: active_modes_alt)
  qed
qed

lemma empty_canvas_fields:
  "tool (store empty_canvas) = Pen" "isDrawing empty_canvas = False" "isPanning empty_canvas = False"
  "isDragging empty_canvas = False" "isResizing empty_canvas = False"
  "stagePos (store empty_canvas) = (0, 0)" "stageScale (store empty_canvas) = 1"
  "paths (store empty_canvas) = []" "shapes (store empty_canvas) = []"
  "collabService (store empty_canvas) = False" "currentShape empty_canvas = None"
  "history (store empty_canvas) = []" "historyIndex (store empty_canvas) = - 1"
  "strokeColor (store empty_canvas) = ''#000000''" "strokeWidth (store empty_canvas) = 2"
  "opacity (store empty_canvas) = 1"
  by (simp_all add: empty_canvas_def initialCanvas_def initialStore_def)

lemma pos_click: "getCanvasCoordinates empty_canvas env0 5 5 = (5, 5)"
  by (simp add: getCanvasCoordinates_def env0_def empty_canvas_fields)

lemma handleMouseDown_hand:
  "tool (store c) = Hand \<Longrightarrow> handleMouseDown c env e
     = c\<lparr> isMouseDown := True, isPanning := True, lastPanPoint := Some (clientX e, clientY e) \<rparr>"
  by (simp add: handleMouseDown_def Let_def)

lemma handleMouseDown_pen:
  "tool (store c) = Pen \<Longrightarrow> handleMouseDown c env e
     = c\<lparr> isMouseDown := True, isDrawing := True,
           currentPath := [getCanvasCoordinates c env (clientX e) (clientY e)] \<rparr>"
  by (simp add: handleMouseDown_def Let_def)

lemma trace_pen_down: "canvas_step ignore_path_update env0 (MouseDown click) empty_canvas = Inr pen_down_canvas"
  by (simp add: handleMouseDown_pen empty_canvas_fields pos_click click_def pen_down_canvas_def)

lemma trace_set_tool: "canvas_step ignore_path_update env0 (StoreCall (SetTool Hand)) pen_down_canvas
   = Inr (pen_down_canvas\<lparr> store := setTool Hand (store empty_canvas) \<rparr>)"
  by (simp add: pen_down_canvas_def)

lemma trace_hand_down: "canvas_step ignore_path_update env0 (MouseDown click)
     (pen_down_canvas\<lparr> store := setTool Hand (store empty_canvas) \<rparr>) = Inr two_modes_canvas"
proof -
  have "tool (store (pen_down_canvas\<lparr> store := setTool Hand (store empty_canvas) \<rparr>)) = Hand"
    by (simp add: setTool_def)
  then show ?thesis
    by (simp add: handleMouseDown_hand click_def two_modes_canvas_def pen_down_canvas_def)
qed

lemma trace_two_downs:
  "run_events ignore_path_update env0 [MouseDown click, StoreCall (SetTool Hand), MouseDown click]
      empty_canvas = Inr two_modes_canvas"
  using trace_pen_down trace_set_tool trace_hand_down by (simp del: canvas_step.simps)

lemma two_modes_active: "active_modes two_modes_canvas = 2"
  by (simp add: active_modes_def two_modes_canvas_def pen_down_canvas_def empty_canvas_fields)

lemma handleMouseUp_pen_drawing:
  assumes "tool (store c) = Pen" "isDrawing c" "currentPath c \<noteq> []"
  shows "store (handleMouseUp c env)
       = collaborativeAddPath
           \<lparr> path_id = now env,
             path_points = concat (map (\<lambda>(x, y). [x, y]) (currentPath c)),
             path_stroke = strokeColor (store c), path_strokeWidth = strokeWidth (store c),
             path_fill = None, path_opacity = Some (opacity (store c)) \<rparr> (store c)"
  using assms by (simp add: handleMouseUp_def Let_def)

lemma pen_down_release_paths:
  "paths (store (handleMouseUp pen_down_canvas env0))
     = [\<lparr> path_id = now env0, path_points = [5, 5], path_stroke = ''#000000'',
           path_strokeWidth = 2, path_fill = None, path_opacity = Some 1 \<rparr>]"
proof -
  have "tool (store pen_down_canvas) = Pen" "isDrawing pen_down_canvas"
    "currentPath pen_down_canvas = [(5, 5)]" "store pen_down_canvas = store empty_canvas"
    by (simp_all add: pen_down_canvas_def empty_canvas_fields)
  then show ?thesis
    by (simp add: handleMouseUp_pen_drawing collaborativeAddPath_def addPath_def
        saveToHistory_other_fields empty_canvas_fields)
qed

lemma run_events_reachable:
  "canvas_reachable up c \<Longrightarrow> run_events up env evs c = Inr c' \<Longrightarrow> canvas_reachable up c'"
  by (induction evs arbitrary: c) (auto split: sum.splits intro: canvas_reachable.next_event)

lemma handleMouseUp_eraser:
  assumes "tool (store c) = Eraser" "\<not> isDrawing c"
  shows "store (handleMouseUp c env) = eraseSelected (erasedElements c) (store c)"
    and "erasedElements (handleMouseUp c env) = []"
  using assms by (simp_all add: handleMouseUp_def Let_def handleEraserMouseUp_def)

text \<open>
  A pointer-up with the eraser tool while the drawing flag of an earlier tool is still set
  and a shape is pending: the batch deletion is followed by the commit of the pending shape.
\<close>

lemma handleMouseUp_eraser_pending_shape:
  assumes "tool (store c) = Eraser" "isDrawing c" "currentShape c = Some cs" "hasSize cs"
  shows "store (handleMouseUp c env)
           = collaborativeAddShape cs (eraseSelected (erasedElements c) (store c))"
    and "erasedElements (handleMouseUp c env) = []"
  using assms by (simp_all add: handleMouseUp_def Let_def handleEraserMouseUp_def)

lemma eraseSelected_model:
  "shapes (eraseSelected ids s) = filter (\<lambda>shape. shape_id shape \<notin> set ids) (shapes s)"
  "paths (eraseSelected ids s) = filter (\<lambda>path. path_id path \<notin> set ids) (paths s)"
  by (simp_all add: eraseSelected_def saveToHistory_other_fields)

lemma eraseSelected_selection:
  "selectedIds (eraseSelected ids s) = filter (\<lambda>i. i \<notin> set ids) (selectedIds s)"
  by (simp add: eraseSelected_def saveToHistory_def Let_def)

lemma eraseSelected_history:
  assumes "hist_inv s"
  shows "history (eraseSelected ids s) =
           (if historyIndex s + 2 > 50
            then tl (take (nat (historyIndex s + 1)) (history s) @ [snapshot (eraseSelected ids s)])
            else take (nat (historyIndex s + 1)) (history s) @ [snapshot (eraseSelected ids s)])"
proof -
  let ?s1 = "s\<lparr> shapes := filter (\<lambda>shape. shape_id shape \<notin> set ids) (shapes s),
                 paths := filter (\<lambda>path. path_id path \<notin> set ids) (paths s),
                 selectedIds := filter (\<lambda>i. i \<notin> set ids) (selectedIds s) \<rparr>"
  have inv: "hist_inv ?s1" using assms by (simp add: hist_inv_def)
  have snap: "snapshot (eraseSelected ids s) = snapshot ?s1"
    by (simp add: snapshot_def eraseSelected_model)
  show ?thesis
    using saveToHistory_general(1)[OF inv] unfolding snap by (simp add: eraseSelected_def)
qed

text \<open>
  The pointer-up step of an eraser session on its own: every touched identifier is gone from
  the shapes, the paths and the selection, and the deletion commits one history entry.
\<close>

lemma eraser_release_facts:
  assumes "tool (store c) = Eraser" "\<not> isDrawing c" "hist_inv (store c)"
  shows "(\<forall>i \<in> set (erasedElements c).
            i \<notin> shape_id ` set (shapes (store (handleMouseUp c env)))
          \<and> i \<notin> path_id ` set (paths (store (handleMouseUp c env)))
          \<and> i \<notin> set (selectedIds (store (handleMouseUp c env))))
     \<and> shapes (store (handleMouseUp c env))
         = filter (\<lambda>shape. shape_id shape \<notin> set (erasedElements c)) (shapes (store c))
     \<and> paths (store (handleMouseUp c env))
         = filter (\<lambda>path. path_id path \<notin> set (erasedElements c)) (paths (store c))
     \<and> history (store (handleMouseUp c env)) =
           (if historyIndex (store c) + 2 > 50
            then tl (take (nat (historyIndex (store c) + 1)) (history (store c))
                     @ [snapshot (store (handleMouseUp c env))])
            else take (nat (historyIndex (store c) + 1)) (history (store c))
                 @ [snapshot (store (handleMouseUp c env))])
     \<and> erasedElements (handleMouseUp c env) = []"
  using handleMouseUp_eraser[OF assms(1,2), of env] eraseSelected_history[OF assms(3)]
  by (auto simp: eraseSelected_model eraseSelected_selection)

text \<open>
  While the eraser sweeps, the fade of a newly touched shape goes through \<open>updateShape\<close>
  and so commits a history entry of its own, before the deletion on pointer-up commits
  another: a sweep over one shape leaves two new entries.
\<close>

lemma eraser_move_fade_commits:
  assumes "findShapeAtPosition c (fst pos) (snd pos) = Some sh"
      and "shape_id sh \<notin> set (erasedElements c)"
      and "findPathAtPosition c (fst pos) (snd pos) = None"
      and "\<not> isCollaborating (store c)"
      and "hist_inv (store c)" and "historyIndex (store c) + 2 \<le> 50"
      and v: "v = max 0 (or1 (shape_opacity sh) - 0.8)"
  shows "store (handleEraserMouseMove updatePath c pos)
           = updateShape (shape_id sh) (no_updates\<lparr> upd_opacity := Set (Some v) \<rparr>) (store c)"
    and "erasedElements (handleEraserMouseMove updatePath c pos) = erasedElements c @ [shape_id sh]"
    and "length (history (store (handleEraserMouseMove updatePath c pos)))
           = nat (historyIndex (store c) + 1) + 1"
proof -
  show st: "store (handleEraserMouseMove updatePath c pos)
           = updateShape (shape_id sh) (no_updates\<lparr> upd_opacity := Set (Some v) \<rparr>) (store c)"
    using assms(1-4) unfolding v
    by (simp add: handleEraserMouseMove_def Let_def collaborativeUpdateShape_def)
  show "erasedElements (handleEraserMouseMove updatePath c pos) = erasedElements c @ [shape_id sh]"
    using assms(1-4) by (simp add: handleEraserMouseMove_def Let_def)
  define s1 where "s1 = (store c)\<lparr> shapes := map (\<lambda>shape. if shape_id shape = shape_id sh
       then merge_shape shape (no_updates\<lparr> upd_opacity := Set (Some v) \<rparr>)
       else shape) (shapes (store c)) \<rparr>"
  have inv: "hist_inv s1" using assms(5) by (simp add: hist_inv_def s1_def)
  have same: "history s1 = history (store c)" "historyIndex s1 = historyIndex (store c)"
    by (simp_all add: s1_def)
  have tk: "length (take (nat (historyIndex (store c) + 1)) (history (store c)))
              = nat (historyIndex (store c) + 1)"
    using assms(5) by (auto simp: hist_inv_def)
  have "history (saveToHistory s1)
          = take (nat (historyIndex (store c) + 1)) (history (store c)) @ [snapshot s1]"
    using saveToHistory_general(1)[OF inv] assms(6) by (simp add: same)
  then have "length (history (saveToHistory s1)) = nat (historyIndex (store c) + 1) + 1"
    using tk by simp
  moreover have "store (handleEraserMouseMove updatePath c pos) = saveToHistory s1"
    by (simp add: st updateShape_def s1_def)
  ultimately show "length (history (store (handleEraserMouseMove updatePath c pos)))
           = nat (historyIndex (store c) + 1) + 1"
    by simp
qed









text \<open>
  The hit test walks the segments of a path, so it only ever returns a path of at least two
  points; the one-point path that a click with the pen leaves in the model is under no
  pointer position.
\<close>

lemma find_Some_holds: "find P xs = Some x \<Longrightarrow> P x \<and> x \<in> set xs"
  by (induction xs) (auto split: if_splits)

lemma findPathAtPosition_needs_two_points:
  assumes "findPathAtPosition c x y = Some p"
  shows "4 \<le> length (path_points p) \<and> p \<in> set (paths (store c))"
proof -
  from assms have hit:
    "list_ex (\<lambda>j. le64 (pointToLineDistance (Finite x) (Finite y)
                                   (Finite (path_points p ! j)) (Finite (path_points p ! (j + 1)))
                                   (Finite (path_points p ! (j + 2)))
                                   (Finite (path_points p ! (j + 3))))
                                (Finite (path_strokeWidth p / 2 / stageScale (store c))))
                     (filter even [0..<length (path_points p) - 3])"
    and mem: "p \<in> set (rev (paths (store c)))"
    unfolding findPathAtPosition_def by (auto dest!: find_Some_holds simp: Let_def)
  have "4 \<le> length (path_points p)"
  proof (rule ccontr)
    assume "\<not> 4 \<le> length (path_points p)"
    then have "[0..<length (path_points p) - 3] = []" by simp
    with hit show False by simp
  qed
  then show ?thesis using mem by simp
qed

lemma single_point_path_never_hit:
  "findPathAtPosition (handleMouseUp pen_down_canvas env0) x y = None"
proof (cases "findPathAtPosition (handleMouseUp pen_down_canvas env0) x y")
  case None
  then show ?thesis .
next
  case (Some p)
  from findPathAtPosition_needs_two_points[OF Some]
  have "4 \<le> length (path_points p)"
    and "p \<in> set (paths (store (handleMouseUp pen_down_canvas env0)))" by simp_all
  then show ?thesis by (simp add: pen_down_release_paths)
qed

lemma from_idle_pen_down: "canvas_reachable_from_idle ignore_path_update pen_down_canvas"
proof -
  have "canvas_reachable_from_idle ignore_path_update empty_canvas"
    unfolding empty_canvas_def by (rule canvas_reachable_from_idle.start_idle)
  moreover have "is_down (MouseDown click) \<longrightarrow> idle empty_canvas"
    by (simp add: idle_def empty_canvas_fields)
  ultimately show ?thesis
    using trace_pen_down by (rule canvas_reachable_from_idle.next_event_idle)
qed

section \<open>The claims about the stroke outliner, snapping and the pointer handlers\<close>

text \<open>
  C3, as stated: the outline of a single-point input is empty. For the single point
  \<open>(0, 0)\<close> and the default options the function returns three points: the first loop
  pushes two points at index 0 and the second loop one.
\<close>

theorem getStroke_single_point_counterexample:
  "getStroke [(0, 0)] default_options \<noteq> [] \<and> length (getStroke [(0, 0)] default_options) = 3"
  using getStroke_single getStroke_single_ne by simp

text \<open>
  C3, amended. For every options value, the outline of the empty input is empty, the
  outline of a single-point input has 3 points, and the outline of a non-empty input of
  \<open>n\<close> points has \<open>2 n + 1\<close> points; so for fixed options the number of output points is
  monotonically non-decreasing in the number of input points.
\<close>

theorem getStroke_point_count:
  "getStroke [] options = []
   \<and> length (getStroke [p] options) = 3
   \<and> (points \<noteq> [] \<longrightarrow> length (getStroke points options) = 2 * length points + 1)
   \<and> (length ps \<le> length qs \<longrightarrow> length (getStroke ps options) \<le> length (getStroke qs options))"
proof -
  have "length (getStroke [] options) = 0" by (simp add: length_getStroke)
  then have "getStroke [] options = []" by simp
  then show ?thesis
    using getStroke_mono[of ps qs options] by (simp add: length_getStroke)
qed

theorem getStroke_point_count_witness:
  "[(0, 0), (5, 5), (10, 0)] \<noteq> ([] :: (real \<times> real) list)
   \<and> length (getStroke [(0, 0), (5, 5), (10, 0)] default_options) = 7
   \<and> length [(0, 0), (5, 5) :: real \<times> real] \<le> length [(0, 0), (5, 5), (10, 0) :: real \<times> real]
   \<and> length (getStroke [(0, 0), (5, 5)] default_options)
       \<le> length (getStroke [(0, 0), (5, 5), (10, 0)] default_options)"
  using getStroke_point_count[of default_options "(0, 0)" "[(0, 0), (5, 5), (10, 0)]"
      "[(0, 0), (5, 5)]" "[(0, 0), (5, 5), (10, 0)]"]
  by simp




text \<open>
  C9, as stated: in every reachable state at most one of the modes panning, dragging,
  resizing and drawing is active. A pointer-down does not clear the flags of the other modes:
  after a pointer-down with the pen, a change to the hand tool (a keyboard shortcut) and a
  second pointer-down with no pointer-up on the canvas in between, drawing and panning are
  both active.
\<close>

theorem two_modes_counterexample:
  "run_events ignore_path_update env0
      [MouseDown click, StoreCall (SetTool Hand), MouseDown click] empty_canvas
     = Inr two_modes_canvas
   \<and> canvas_reachable ignore_path_update two_modes_canvas
   \<and> isDrawing two_modes_canvas \<and> isPanning two_modes_canvas
   \<and> active_modes two_modes_canvas = 2"
proof -
  have "canvas_reachable ignore_path_update empty_canvas"
    unfolding empty_canvas_def by (rule canvas_reachable.start)
  from run_events_reachable[OF this trace_two_downs] show ?thesis
    using trace_two_downs two_modes_active
    by (simp add: two_modes_canvas_def pen_down_canvas_def)
qed

text \<open>
  C9, amended. Every pointer-down that arrives in the idle state activates at most one of
  the modes panning, dragging, resizing and drawing; pointer-up leaves all four inactive and
  the transient guide lines empty, whatever the state before; hence in every state reached
  by events among which each pointer-down arrives in the idle state, at most one mode is
  active. (A pointer-down that arrives while a mode is active leaves that mode active.)
\<close>

theorem modes_exclusive_from_idle:
  "(idle c \<longrightarrow> active_modes (handleMouseDown c env e) \<le> 1)
   \<and> idle (handleMouseUp c env) \<and> tempGuides (handleMouseUp c env) = []
   \<and> (canvas_reachable_from_idle updatePath c \<longrightarrow> active_modes c \<le> 1)"
  using modes_handleMouseDown[of c env e] modes_handleMouseUp[of c env]
    guides_handleMouseUp[of c env] from_idle_modes[of updatePath c]
  by (simp add: idle_alt)

theorem modes_exclusive_from_idle_witness:
  "idle empty_canvas \<and> active_modes (handleMouseDown empty_canvas env0 click) \<le> 1
   \<and> idle (handleMouseUp two_modes_canvas env0)
   \<and> tempGuides (handleMouseUp two_modes_canvas env0) = []
   \<and> canvas_reachable_from_idle ignore_path_update pen_down_canvas
   \<and> active_modes pen_down_canvas \<le> 1"
proof -
  have i: "idle empty_canvas" by (simp add: idle_def empty_canvas_fields)
  show ?thesis
    using modes_exclusive_from_idle[of empty_canvas env0 click ignore_path_update]
      modes_exclusive_from_idle[of two_modes_canvas env0 click ignore_path_update]
      modes_exclusive_from_idle[of pen_down_canvas env0 click ignore_path_update]
      i from_idle_pen_down
    by simp
qed

text \<open>
  C2, on the code. A pointer-down with the pen followed at once by a pointer-up, on the
  empty canvas outside a collaboration session: the buffer holds the single point of the
  pointer-down, and the pointer-up adds a path of that one point to the model.
\<close>

theorem pen_click_commits_single_point_path:
  "run_events ignore_path_update env0 [MouseDown click] empty_canvas = Inr pen_down_canvas
   \<and> currentPath pen_down_canvas = [(5, 5)]
   \<and> run_events ignore_path_update env0 [MouseDown click, MouseUp] empty_canvas
       = Inr (handleMouseUp pen_down_canvas env0)
   \<and> paths (store (handleMouseUp pen_down_canvas env0))
       = [\<lparr> path_id = now env0, path_points = [5, 5], path_stroke = ''#000000'',
             path_strokeWidth = 2, path_fill = None, path_opacity = Some 1 \<rparr>]"
  using trace_pen_down pen_down_release_paths
  by (simp add: pen_down_canvas_def del: canvas_step.simps(1))


end
